theory Spec2Isabelle
  imports Main "HOL-Library.Word"
begin

section \<open>Strings and the library functions the address codec uses\<close>

text \<open>
  Go strings are byte sequences; \<open>string\<close> (a list of 8-bit \<open>char\<close>) models them
  byte for byte. The functions of this section model the parts of Go's \<open>strings\<close>,
  \<open>fmt\<close> and \<open>net\<close> packages that the repository calls.
\<close>

datatype error =
    errInvalidAddrFamily
  | Errorf string
  | AddrError string
  | SysError string

datatype panic = IndexOutOfRange | NilDereference

text \<open>A call that can return a value, return an error, or panic.\<close>

datatype 'a res = Ok 'a | Err error | Panic panic

text \<open>\<open>strings.Split(s, sep)\<close> for a one-byte separator: always at least one field.\<close>

fun strings_Split :: "string \<Rightarrow> char \<Rightarrow> string list" where
  "strings_Split [] sep = [[]]"
| "strings_Split (c # cs) sep =
     (if c = sep then [] # strings_Split cs sep
      else (case strings_Split cs sep of
              [] \<Rightarrow> [[c]]
            | f # fs \<Rightarrow> (c # f) # fs))"

text \<open>
  \<open>string(b)\<close> for a byte \<open>b\<close>: the UTF-8 encoding of the code point \<open>b\<close>, one byte
  below 0x80 and two bytes from 0x80 on.
\<close>

definition string_of_byte :: "char \<Rightarrow> string" where
  "string_of_byte b =
     (let n = (of_char b :: nat) in
      if n < 128 then [b]
      else [char_of (192 + n div 64), char_of (128 + n mod 64)])"

text \<open>
  \<open>strings.Trim(s, cutset)\<close> for a cutset holding one code point, given by its encoding
  \<open>d\<close>: the trailing copies of \<open>d\<close> are removed first, then the leading ones.
\<close>

function trimLeft :: "string \<Rightarrow> string \<Rightarrow> string" where
  "trimLeft s d =
     (if d \<noteq> [] \<and> take (length d) s = d then trimLeft (drop (length d) s) d else s)"
  by pat_completeness auto
termination
proof (relation "measure (\<lambda>(s, d). length s)")
  fix s d :: string
  assume "d \<noteq> [] \<and> take (length d) s = d"
  then have pos: "0 < length d" and "length (take (length d) s) = length d"
    by simp_all
  then have "min (length s) (length d) = length d"
    by simp
  then have "length d \<le> length s"
    by arith
  with pos have "length s - length d < length s"
    by arith
  then have "length (drop (length d) s) < length s"
    by (simp only: length_drop)
  then show "((drop (length d) s, d), (s, d)) \<in> measure (\<lambda>(s, d). length s)"
    by simp
qed simp

declare trimLeft.simps [simp del]

definition trimRight :: "string \<Rightarrow> string \<Rightarrow> string" where
  "trimRight s d = rev (trimLeft (rev s) (rev d))"

definition strings_Trim :: "string \<Rightarrow> string \<Rightarrow> string" where
  "strings_Trim s d = trimLeft (trimRight s d) d"

text \<open>\<open>net.JoinHostPort\<close>: a host with a colon is bracketed.\<close>

definition net_JoinHostPort :: "string \<Rightarrow> string \<Rightarrow> string" where
  "net_JoinHostPort host port =
     (if CHR '':'' \<in> set host then ''['' @ host @ '']:'' @ port
      else host @ '':'' @ port)"

subsection \<open>Decimal numerals\<close>

definition isDigit :: "char \<Rightarrow> bool" where
  "isDigit c = (48 \<le> (of_char c :: nat) \<and> (of_char c :: nat) \<le> 57)"

definition digitVal :: "char \<Rightarrow> nat" where
  "digitVal c = (of_char c :: nat) - 48"

text \<open>The value of a string of decimal digits, most significant first.\<close>

definition atoi :: "string \<Rightarrow> nat" where
  "atoi s = foldl (\<lambda>acc c. acc * 10 + digitVal c) 0 s"

text \<open>\<open>fmt.Sprintf("%d", n)\<close> for an unsigned \<open>n\<close>.\<close>

function itoa :: "nat \<Rightarrow> string" where
  "itoa n =
     (if n < 10 then [''0123456789'' ! n] else itoa (n div 10) @ [''0123456789'' ! (n mod 10)])"
  by pat_completeness auto
termination
  by (relation "measure id") auto

declare itoa.simps [simp del]

subsection \<open>\<open>fmt.Sscanf(s, "%d", &v)\<close>\<close>

text \<open>
  The scanner first skips white space. \<open>spaceLen s\<close> is the number of bytes of the
  white-space code point \<open>s\<close> starts with (0 when it starts with none); the newline is
  not among them, since \<open>Sscanf\<close> stops with an error on a newline.
\<close>

definition spaceLen :: "string \<Rightarrow> nat" where
  "spaceLen s =
     (case map (of_char :: char \<Rightarrow> nat) s of
        [] \<Rightarrow> 0
      | b0 # r0 \<Rightarrow>
          if b0 = 9 \<or> b0 = 11 \<or> b0 = 12 \<or> b0 = 13 \<or> b0 = 32 then 1
          else (case r0 of
                  [] \<Rightarrow> 0
                | b1 # r1 \<Rightarrow>
                    if b0 = 194 \<and> (b1 = 133 \<or> b1 = 160) then 2
                    else (case r1 of
                            [] \<Rightarrow> 0
                          | b2 # r2 \<Rightarrow>
                              if b0 = 225 \<and> b1 = 154 \<and> b2 = 128 then 3
                              else if b0 = 226 \<and> b1 = 128 \<and>
                                      ((128 \<le> b2 \<and> b2 \<le> 138) \<or> b2 = 168 \<or> b2 = 169 \<or> b2 = 175)
                                   then 3
                              else if b0 = 226 \<and> b1 = 129 \<and> b2 = 159 then 3
                              else if b0 = 227 \<and> b1 = 128 \<and> b2 = 128 then 3
                              else 0)))"

text \<open>\<open>SkipSpace\<close>: \<open>None\<close> is the error "unexpected newline".\<close>

function SkipSpace :: "string \<Rightarrow> string option" where
  "SkipSpace s =
     (if s = [] then Some []
      else if hd s = CHR 0x0A then None
      else if 0 < spaceLen s then SkipSpace (drop (spaceLen s) s)
      else Some s)"
  by pat_completeness auto
termination
  by (relation "measure length") auto

declare SkipSpace.simps [simp del]

text \<open>
  Scanning an unsigned integer of \<open>bits\<close> bits with the verb \<open>%d\<close>: skip white space,
  read the longest run of decimal digits (at least one), and fail when the value does
  not fit. Input after the digits is left unread. \<open>None\<close> is any scan error.
\<close>

definition scanUint :: "nat \<Rightarrow> string \<Rightarrow> nat option" where
  "scanUint bits s =
     (case SkipSpace s of
        None \<Rightarrow> None
      | Some r \<Rightarrow>
          (let tok = takeWhile isDigit r in
           if tok = [] then None
           else if atoi tok < 2 ^ bits then Some (atoi tok)
           else None))"

text \<open>
  \<open>fmt.Sscanf(s, "%d", &v)\<close> with \<open>v\<close> a \<open>uint16\<close> whose error result is dropped:
  \<open>v\<close> keeps its old value when the scan fails.
\<close>

definition Sscanf_uint16 :: "string \<Rightarrow> 16 word \<Rightarrow> 16 word" where
  "Sscanf_uint16 s old = (case scanUint 16 s of None \<Rightarrow> old | Some n \<Rightarrow> of_nat n)"

section \<open>Address codec\<close>

text \<open>
  \<open>hostPortToAddr\<close> (PORT argument and PASV reply). The port is computed in
  \<open>uint16\<close>, so the product and the sum wrap around, and the comparison with
  \<open>math.MaxUint16\<close> is made on the wrapped value.
\<close>

definition MaxUint16 :: nat where
  "MaxUint16 = 65535"

definition hostPortToAddr :: "string \<Rightarrow> error + string" where
  "hostPortToAddr hostPort =
     (let data = strings_Split hostPort (CHR '','') in
      if length data \<noteq> 6 then Inl (Errorf (''invalid argument: '' @ hostPort))
      else
        (let host = data ! 0 @ ''.'' @ data ! 1 @ ''.'' @ data ! 2 @ ''.'' @ data ! 3;
             portData0 = Sscanf_uint16 (data ! 4) 0;
             portData1 = Sscanf_uint16 (data ! 5) 0;
             port = portData0 * 256 + portData1
         in if unat port > MaxUint16
            then Inl (Errorf (''port out of range: '' @ itoa (unat port)))
            else Inr (net_JoinHostPort host (itoa (unat port)))))"

text \<open>
  \<open>parseEPRTArg\<close> (EPRT argument). \<open>arg[0]\<close> panics on the empty string. The
  delimiter read from the argument is used for trimming only; the split is on
  \<open>|\<close>.
\<close>

definition parseEPRTArg :: "string \<Rightarrow> string res" where
  "parseEPRTArg arg =
     (case arg of
        [] \<Rightarrow> Panic IndexOutOfRange
      | b # _ \<Rightarrow>
          (let delim = string_of_byte b;
               params = strings_Split (strings_Trim arg delim) (CHR ''|'')
           in if length params \<noteq> 3 then Err (Errorf (''invalid EPRT string: '' @ arg))
              else if params ! 0 \<noteq> ''1'' \<and> params ! 0 \<noteq> ''2'' then Err errInvalidAddrFamily
              else Ok (net_JoinHostPort (params ! 1) (params ! 2))))"

text \<open>
  \<open>getEPRTString\<close>. \<open>net.ParseIP(host)\<close> is taken as the argument \<open>ip\<close>: \<open>None\<close>
  is the nil address, and of a parsed address the code reads \<open>To4() != nil\<close> and
  \<open>IsLoopback()\<close> only.
\<close>

record IP =
  isTo4 :: bool
  IsLoopback :: bool

definition getEPRTString :: "IP option \<Rightarrow> string \<Rightarrow> string \<Rightarrow> error + string" where
  "getEPRTString ip host port =
     (case ip of
        None \<Rightarrow> Inl (Errorf (''unrecognized IP address: '' @ host))
      | Some i \<Rightarrow>
          (let (proto, host') =
                 (if isTo4 i then (''1'', host)
                  else if IsLoopback i then (''1'', ''127.0.0.1'')
                  else (''2'', host))
           in Inr (''|'' @ proto @ ''|'' @ host' @ ''|'' @ port @ ''|'')))"

text \<open>
  \<open>getPORTString\<close> (PORT argument and PASV reply, built from a host and a port).
\<close>

definition getPORTString :: "string \<Rightarrow> string \<Rightarrow> error + string" where
  "getPORTString host port =
     (let hostBytes = strings_Split host (CHR ''.'') in
      if length hostBytes \<noteq> 4 then Inl (Errorf (''Invalid address: '' @ host @ '':'' @ port))
      else
        (let intPort = Sscanf_uint16 port 0 in
         if unat intPort > MaxUint16 then Inl (Errorf (''Invalid port: '' @ host @ '':'' @ port))
         else
           (let portBytes0 = and intPort 255;
                portBytes1 = drop_bit 8 intPort;
                addrString = concat (map (\<lambda>s. s @ '','') hostBytes)
            in Inr (addrString @ itoa (unat portBytes1) @ '','' @ itoa (unat portBytes0)))))"

section \<open>More library functions: \<open>strings\<close>, \<open>path\<close>, \<open>net\<close>, \<open>fmt\<close>\<close>

text \<open>
  \<open>strings.ToUpper\<close> on the ASCII letters. Bytes from 0x80 on are left as they are:
  the case mapping of code points outside ASCII is not modelled.
\<close>

definition upperByte :: "char \<Rightarrow> char" where
  "upperByte c =
     (case map_of (zip ''abcdefghijklmnopqrstuvwxyz'' ''ABCDEFGHIJKLMNOPQRSTUVWXYZ'') c of
        None \<Rightarrow> c
      | Some u \<Rightarrow> u)"

definition strings_ToUpper :: "string \<Rightarrow> string" where
  "strings_ToUpper s = map upperByte s"

text \<open>\<open>strings.Trim(s, cutset)\<close> for a cutset of ASCII bytes.\<close>

definition strings_TrimSet :: "string \<Rightarrow> string \<Rightarrow> string" where
  "strings_TrimSet s cutset =
     dropWhile (\<lambda>c. c \<in> set cutset) (rev (dropWhile (\<lambda>c. c \<in> set cutset) (rev s)))"

text \<open>\<open>strings.Replace(s, "\n", "\r\n", -1)\<close>: every line feed becomes CR LF.\<close>

definition replaceLF :: "string \<Rightarrow> string" where
  "replaceLF s = concat (map (\<lambda>c. if c = CHR 0x0A then [CHR 0x0D, CHR 0x0A] else [c]) s)"

subsection \<open>\<open>path.IsAbs\<close>, \<open>path.Clean\<close>, \<open>path.Join\<close>\<close>

definition path_IsAbs :: "string \<Rightarrow> bool" where
  "path_IsAbs p = (p \<noteq> [] \<and> hd p = CHR ''/'')"

text \<open>
  The inner loop of the \<open>..\<close> case of \<open>Clean\<close>: \<open>w\<close> moves left while it is above
  \<open>dotdot\<close> and the byte at \<open>w\<close> is not a slash.
\<close>

function backtrack :: "string \<Rightarrow> nat \<Rightarrow> nat \<Rightarrow> nat" where
  "backtrack out dotdot w =
     (if w > dotdot \<and> out ! w \<noteq> CHR ''/'' then backtrack out dotdot (w - 1) else w)"
  by pat_completeness auto
termination
  by (relation "measure (\<lambda>(out, dotdot, w). w)") auto

declare backtrack.simps [simp del]

text \<open>
  The main loop of \<open>Clean\<close>. \<open>out\<close> is the output written so far (the first \<open>w\<close>
  bytes of the buffer), \<open>p\<close> the part of the path still to read.
\<close>

function cleanLoop :: "bool \<Rightarrow> string \<Rightarrow> nat \<Rightarrow> string \<Rightarrow> string" where
  "cleanLoop rooted out dotdot p =
     (case p of
        [] \<Rightarrow> out
      | c # r \<Rightarrow>
          if c = CHR ''/'' then cleanLoop rooted out dotdot r
          else if c = CHR ''.'' \<and> (r = [] \<or> hd r = CHR ''/'') then cleanLoop rooted out dotdot r
          else if c = CHR ''.'' \<and> hd r = CHR ''.'' \<and> (tl r = [] \<or> hd (tl r) = CHR ''/'') then
            (if length out > dotdot then
               cleanLoop rooted (take (backtrack out dotdot (length out - 1)) out) dotdot (tl r)
             else if \<not> rooted then
               (let out' = (if length out > 0 then out @ ''/'' else out) @ ''..''
                in cleanLoop rooted out' (length out') (tl r))
             else cleanLoop rooted out dotdot (tl r))
          else
            (let out' = (if rooted \<and> length out \<noteq> 1 \<or> \<not> rooted \<and> length out \<noteq> 0
                         then out @ ''/'' else out)
             in cleanLoop rooted (out' @ takeWhile (\<lambda>x. x \<noteq> CHR ''/'') p) dotdot
                  (dropWhile (\<lambda>x. x \<noteq> CHR ''/'') p)))"
  by pat_completeness auto
termination
proof (relation "measure (\<lambda>(rooted, out, dotdot, p). length p)", goal_cases)
  case 1
  show ?case by simp
next
  case (2 rooted out dotdot p c r)
  then show ?case by simp
next
  case (3 rooted out dotdot p c r)
  then show ?case by simp
next
  case (4 rooted out dotdot p c r)
  have "length (tl r) < length (c # r)" by simp
  with 4(1) show ?case by simp
next
  case (5 rooted out dotdot p c r out')
  have "length (tl r) < length (c # r)" by simp
  with 5(1) show ?case by simp
next
  case (6 rooted out dotdot p c r)
  have "length (tl r) < length (c # r)" by simp
  with 6(1) show ?case by simp
next
  case (7 rooted out dotdot p c r out')
  have "length (dropWhile (\<lambda>x. x \<noteq> CHR ''/'') r) \<le> length r"
    by (rule length_dropWhile_le)
  with 7(1,2) show ?case by simp
qed

declare cleanLoop.simps [simp del]

definition path_Clean :: "string \<Rightarrow> string" where
  "path_Clean p =
     (if p = [] then ''.''
      else
        (let rooted = (hd p = CHR ''/'');
             out = (if rooted then cleanLoop True ''/'' 1 (tl p) else cleanLoop False [] 0 p)
         in if out = [] then ''.'' else out))"

text \<open>\<open>Join\<close> skips the leading empty elements and puts a slash between the others.\<close>

fun joinBuf :: "string \<Rightarrow> string list \<Rightarrow> string" where
  "joinBuf buf [] = buf"
| "joinBuf buf (e # es) =
     (if buf \<noteq> [] \<or> e \<noteq> [] then joinBuf ((if buf \<noteq> [] then buf @ ''/'' else buf) @ e) es
      else joinBuf buf es)"

definition path_Join :: "string list \<Rightarrow> string" where
  "path_Join elem = (if concat elem = [] then [] else path_Clean (joinBuf [] elem))"

subsection \<open>\<open>net.SplitHostPort\<close>\<close>

text \<open>The index of the first and of the last occurrence of a byte.\<close>

definition IndexByte :: "string \<Rightarrow> char \<Rightarrow> nat option" where
  "IndexByte s c = (if c \<in> set s then Some (length (takeWhile (\<lambda>x. x \<noteq> c) s)) else None)"

definition LastIndexByte :: "string \<Rightarrow> char \<Rightarrow> nat option" where
  "LastIndexByte s c =
     (if c \<in> set s then Some (length s - 1 - length (takeWhile (\<lambda>x. x \<noteq> c) (rev s)))
      else None)"

definition net_SplitHostPort :: "string \<Rightarrow> error + string \<times> string" where
  "net_SplitHostPort hostport =
     (case LastIndexByte hostport (CHR '':'') of
        None \<Rightarrow> Inl (AddrError ''missing port in address'')
      | Some i \<Rightarrow>
          if hd hostport = CHR ''[''
          then (case IndexByte hostport (CHR '']'') of
                  None \<Rightarrow> Inl (AddrError ''missing ']' in address'')
                | Some e \<Rightarrow>
                    if e + 1 = length hostport then Inl (AddrError ''missing port in address'')
                    else if e + 1 = i then
                      (if CHR ''['' \<in> set (drop 1 hostport)
                       then Inl (AddrError ''unexpected '[' in address'')
                       else if CHR '']'' \<in> set (drop (e + 1) hostport)
                       then Inl (AddrError ''unexpected ']' in address'')
                       else Inr (take (e - 1) (drop 1 hostport), drop (i + 1) hostport))
                    else if hostport ! (e + 1) = CHR '':''
                    then Inl (AddrError ''too many colons in address'')
                    else Inl (AddrError ''missing port in address''))
          else
            (let host = take i hostport in
             if CHR '':'' \<in> set host then Inl (AddrError ''too many colons in address'')
             else if CHR ''['' \<in> set hostport then Inl (AddrError ''unexpected '[' in address'')
             else if CHR '']'' \<in> set hostport then Inl (AddrError ''unexpected ']' in address'')
             else Inr (host, drop (i + 1) hostport)))"

subsection \<open>\<open>fmt.Sscanf(s, "%d", &n)\<close> with \<open>n\<close> an \<open>int\<close>\<close>

text \<open>
  An optional sign, then at least one decimal digit; the value has to fit 64 bits.
  \<open>None\<close> is any scan error.
\<close>

definition scanInt :: "string \<Rightarrow> int option" where
  "scanInt s =
     (case SkipSpace s of
        None \<Rightarrow> None
      | Some r \<Rightarrow>
          (let neg = (r \<noteq> [] \<and> hd r = CHR ''-'');
               r' = (if r \<noteq> [] \<and> (hd r = CHR ''+'' \<or> hd r = CHR ''-'') then tl r else r);
               tok = takeWhile isDigit r';
               v = (if neg then - int (atoi tok) else int (atoi tok))
           in if tok = [] then None
              else if - (2 ^ 63) \<le> v \<and> v < 2 ^ 63 then Some v
              else None))"

text \<open>\<open>fmt.Sprintf("%d", n)\<close> for a signed \<open>n\<close>.\<close>

definition itoa_int :: "int \<Rightarrow> string" where
  "itoa_int n = (if n < 0 then ''-'' @ itoa (nat (- n)) else itoa (nat n))"

text \<open>\<open>n++\<close> on a 64-bit \<open>int\<close>.\<close>

definition incr_int64 :: "int \<Rightarrow> int" where
  "incr_int64 n = (if n = 2 ^ 63 - 1 then - (2 ^ 63) else n + 1)"

section \<open>Server data connections\<close>

text \<open>
  What the network answers: a connection (accepted or dialled) has a remote address,
  and its \<open>Write\<close> and \<open>Close\<close> return an error or nothing.
\<close>

record netConn =
  RemoteAddr :: string
  WriteErr :: "error option"
  CloseErr :: "error option"

text \<open>What a data connection does on the network, in order.\<close>

datatype netEvent = EvDial string | EvAccept | EvWrite string | EvClose

record serverActiveDataConn =
  address :: string

text \<open>The listener \<open>ln\<close> is named by the address it listens on.\<close>

record serverPassiveDataConn =
  ln :: string
  localAddr :: string

datatype serverDataConn =
    Active serverActiveDataConn
  | Passive serverPassiveDataConn

text \<open>
  \<open>serverActiveDataConn.write\<close>; \<open>dial\<close> is the result of
  \<open>net.DialTimeout("tcp", s.address, connTimeout)\<close>.
\<close>

definition serverActiveDataConn_write ::
  "serverActiveDataConn \<Rightarrow> (error + netConn) \<Rightarrow> string \<Rightarrow> error option \<times> netEvent list" where
  "serverActiveDataConn_write s dial msg =
     (case dial of
        Inl err \<Rightarrow> (Some err, [EvDial (address s)])
      | Inr conn \<Rightarrow>
          (case WriteErr conn of
             Some err \<Rightarrow> (Some err, [EvDial (address s), EvWrite msg])
           | None \<Rightarrow> (CloseErr conn, [EvDial (address s), EvWrite msg, EvClose])))"

text \<open>\<open>serverPassiveDataConn.write\<close>; \<open>accept\<close> is the result of \<open>s.ln.Accept()\<close>.\<close>

definition serverPassiveDataConn_write ::
  "serverPassiveDataConn \<Rightarrow> (error + netConn) \<Rightarrow> string \<Rightarrow> error option \<times> netEvent list" where
  "serverPassiveDataConn_write s accept msg =
     (case accept of
        Inl err \<Rightarrow> (Some err, [EvAccept])
      | Inr conn \<Rightarrow>
          (case net_SplitHostPort (RemoteAddr conn) of
             Inl err \<Rightarrow> (Some err, [EvAccept])
           | Inr (dip, _) \<Rightarrow>
               if dip \<noteq> localAddr s
               then (Some (Errorf (''Unexpeted data client: want '' @ localAddr s @ '' got '' @ dip)),
                     [EvAccept])
               else
                 (case WriteErr conn of
                    Some err \<Rightarrow> (Some err, [EvAccept, EvWrite msg])
                  | None \<Rightarrow> (CloseErr conn, [EvAccept, EvWrite msg, EvClose]))))"

section \<open>Server session engine\<close>

record config =
  logDir :: string
  nLogFiles :: int
  usersFile :: string
  port :: bool
  pasv :: bool

record Command =
  Code :: string
  Arugment :: string

record Reply =
  StatusCode :: string
  Message :: string

definition newReply :: "string \<Rightarrow> string \<Rightarrow> Reply" where
  "newReply st m = \<lparr>StatusCode = st, Message = m\<rparr>"

text \<open>The handler functions a command table can hold.\<close>

datatype handleFunc =
    hUSER | hPASS | hHELP | hPWD | hCWD | hCDUP | hPORT | hEPRT | hPASV | hEPSV
  | hLIST | hRETR | hQUIT | h530NotLoggedIn

text \<open>
  The fields of \<open>handler\<close>, without the logger. \<open>conn\<close> is the control connection;
  \<open>replies\<close> is what \<open>writeReply\<close> has written to it, in order (a write error is
  dropped by every caller, so it is not modelled), and \<open>dataEvents\<close> is what the data
  connections have done on the network. \<open>dataConn\<close> is \<open>None\<close> for the nil interface.
\<close>

record handler =
  config :: config
  conn :: netConn
  username :: string
  dir :: string
  dataConn :: "serverDataConn option"
  users :: "string \<rightharpoonup> string"
  isLoggedIn :: bool
  commands :: "string \<rightharpoonup> handleFunc"
  replies :: "Reply list"
  dataEvents :: "netEvent list"

text \<open>
  What the operating system and the network answer while one command is handled:
  \<open>os.Getwd\<close>, \<open>os.Lstat\<close> (of a file only \<open>IsDir\<close> and \<open>Mode().IsRegular\<close> are
  read), \<open>ioutil.ReadFile\<close>, the output of \<open>ls -l\<close>, \<open>net.Listen("tcp", ":0")\<close> (the
  address of the new listener), \<open>Accept\<close> on the listener, \<open>net.DialTimeout\<close>, and
  \<open>net.ParseIP\<close>.
\<close>

record FileInfo =
  IsDir :: bool
  IsRegular :: bool

record env =
  Getwd :: "error + string"
  Lstat :: "string \<Rightarrow> error + FileInfo"
  ReadFile :: "string \<Rightarrow> error + string"
  ls_l :: "string \<Rightarrow> error + string"
  Listen :: "error + string"
  Accept :: "error + netConn"
  DialTimeout :: "string \<Rightarrow> error + netConn"
  ParseIP :: "string \<Rightarrow> IP option"

definition writeReply :: "handler \<Rightarrow> Reply \<Rightarrow> handler" where
  "writeReply h r = h\<lparr>replies := replies h @ [r]\<rparr>"

definition writeError501Args :: "handler \<Rightarrow> handler" where
  "writeError501Args h = writeReply h (newReply ''501'' ''Error in arguments.'')"

definition writeError550FileAction :: "handler \<Rightarrow> handler" where
  "writeError550FileAction h = writeReply h (newReply ''550'' ''File action failed.'')"

definition writeError530NotLoggedIn :: "handler \<Rightarrow> string \<Rightarrow> handler" where
  "writeError530NotLoggedIn h arg =
     writeReply h (newReply ''530'' ''Log in with USER and PASS first.'')"

definition writeError421Server :: "handler \<Rightarrow> handler" where
  "writeError421Server h = writeReply h (newReply ''421'' ''An internal error occurred.'')"

definition initCommandTable :: "handler \<Rightarrow> handler" where
  "initCommandTable h =
     h\<lparr>commands := (commands h)
        (''USER'' \<mapsto> hUSER, ''PASS'' \<mapsto> hPASS, ''HELP'' \<mapsto> hHELP,
         ''PWD'' \<mapsto> h530NotLoggedIn, ''CWD'' \<mapsto> h530NotLoggedIn,
         ''CDUP'' \<mapsto> h530NotLoggedIn, ''PORT'' \<mapsto> h530NotLoggedIn,
         ''EPRT'' \<mapsto> h530NotLoggedIn, ''PASV'' \<mapsto> h530NotLoggedIn,
         ''EPSV'' \<mapsto> h530NotLoggedIn, ''LIST'' \<mapsto> h530NotLoggedIn,
         ''RETR'' \<mapsto> h530NotLoggedIn, ''QUIT'' \<mapsto> hQUIT)\<rparr>"

definition initCommandTableLoggedIn :: "handler \<Rightarrow> handler" where
  "initCommandTableLoggedIn h =
     h\<lparr>commands := (commands h)
        (''USER'' \<mapsto> hUSER, ''PASS'' \<mapsto> hPASS, ''HELP'' \<mapsto> hHELP,
         ''PWD'' \<mapsto> hPWD, ''CWD'' \<mapsto> hCWD, ''CDUP'' \<mapsto> hCDUP, ''PORT'' \<mapsto> hPORT,
         ''EPRT'' \<mapsto> hEPRT, ''PASV'' \<mapsto> hPASV, ''EPSV'' \<mapsto> hEPSV, ''LIST'' \<mapsto> hLIST,
         ''RETR'' \<mapsto> hRETR, ''QUIT'' \<mapsto> hQUIT)\<rparr>"

definition initActiveDataConn :: "handler \<Rightarrow> string \<Rightarrow> handler" where
  "initActiveDataConn h addr = h\<lparr>dataConn := Some (Active \<lparr>address = addr\<rparr>)\<rparr>"

text \<open>
  \<open>initPassiveDataConn\<close>: the error of \<open>SplitHostPort\<close> is dropped, and the host it
  returns with an error is the empty string.
\<close>

definition initPassiveDataConn :: "env \<Rightarrow> handler \<Rightarrow> handler \<times> (error + string)" where
  "initPassiveDataConn e h =
     (case Listen e of
        Inl err \<Rightarrow> (h, Inl err)
      | Inr lnAddr \<Rightarrow>
          (let addr = (case net_SplitHostPort (RemoteAddr (conn h)) of
                         Inl _ \<Rightarrow> []
                       | Inr (a, _) \<Rightarrow> a)
           in (h\<lparr>dataConn := Some (Passive \<lparr>ln = lnAddr, localAddr = addr\<rparr>)\<rparr>, Inr lnAddr)))"

definition newHandler ::
  "env \<Rightarrow> netConn \<Rightarrow> config \<Rightarrow> (string \<rightharpoonup> string) \<Rightarrow> error + handler" where
  "newHandler e cn c us =
     (case Getwd e of
        Inl err \<Rightarrow> Inl err
      | Inr d \<Rightarrow>
          (let h = initCommandTable
                     \<lparr>config = c, conn = cn, username = [], dir = d, dataConn = None,
                      users = us, isLoggedIn = False, commands = Map.empty,
                      replies = [], dataEvents = []\<rparr>
           in if pasv c then Inr (fst (initPassiveDataConn e h))
              else
                (case net_SplitHostPort (RemoteAddr cn) of
                   Inl err \<Rightarrow> Inl err
                 | Inr (hst, prt) \<Rightarrow>
                     (case scanInt prt of
                        None \<Rightarrow> Inl (Errorf ''expected integer'')
                      | Some portNum \<Rightarrow>
                          Inr (initActiveDataConn h
                                 (net_JoinHostPort hst (itoa_int (incr_int64 portNum))))))))"

subsection \<open>Command handlers\<close>

text \<open>
  A handler takes the session, the answers of the outside world and the argument, and
  returns the session it leaves, or the panic that ends the process (\<open>Inl\<close>).
\<close>

definition HandleUSER :: "handler \<Rightarrow> string \<Rightarrow> handler" where
  "HandleUSER h uname =
     (if uname = [] then writeError501Args h
      else if uname = username h \<and> isLoggedIn h
      then writeReply h (newReply ''230'' ''User already logged in.'')
      else writeReply (h\<lparr>username := uname\<rparr>)
             (newReply ''331'' (''Username '' @ uname @ '' accepted, please provide the password.'')))"

definition HandlePASS :: "handler \<Rightarrow> string \<Rightarrow> handler" where
  "HandlePASS h password =
     (if username h = [] then writeReply h (newReply ''503'' ''Log in with USER first.'')
      else
        (case users h (username h) of
           None \<Rightarrow> (writeReply h (newReply ''530'' ''Login incorrect.''))\<lparr>username := []\<rparr>
         | Some pass \<Rightarrow>
             if password \<noteq> pass
             then (writeReply h (newReply ''530'' ''Login incorrect.''))\<lparr>username := []\<rparr>
             else writeReply ((initCommandTableLoggedIn h)\<lparr>isLoggedIn := True\<rparr>)
                    (newReply ''230'' ''Login successful.'')))"

definition HandlePWD :: "handler \<Rightarrow> string \<Rightarrow> handler" where
  "HandlePWD h arg =
     (if arg \<noteq> [] then writeError501Args h
      else writeReply h
             (newReply ''257'' ([CHR 0x22] @ dir h @ [CHR 0x22] @ '' is the current directory.'')))"

definition HandleCWD :: "handler \<Rightarrow> env \<Rightarrow> string \<Rightarrow> handler" where
  "HandleCWD h e d =
     (let p = (if \<not> path_IsAbs d then path_Join [dir h, d] else d) in
      case Lstat e p of
        Inl err \<Rightarrow> writeReply h (newReply ''550'' ''Directory change failed.'')
      | Inr info \<Rightarrow>
          if \<not> IsDir info then writeReply h (newReply ''550'' (d @ '': Not a directory.''))
          else writeReply (h\<lparr>dir := p\<rparr>) (newReply ''250'' ''Directory change successful.''))"

definition HandleCDUP :: "handler \<Rightarrow> env \<Rightarrow> string \<Rightarrow> handler" where
  "HandleCDUP h e arg = (if arg \<noteq> [] then writeError501Args h else HandleCWD h e ''..'')"

definition HandlePORT :: "handler \<Rightarrow> string \<Rightarrow> handler" where
  "HandlePORT h args =
     (if \<not> port (config h) then writeReply h (newReply ''550'' ''PORT mode not available.'')
      else
        (case hostPortToAddr args of
           Inl err \<Rightarrow> writeError501Args h
         | Inr addr \<Rightarrow>
             writeReply (initActiveDataConn h addr) (newReply ''200'' ''PORT command accepted.'')))"

definition HandleEPRT :: "handler \<Rightarrow> string \<Rightarrow> panic + handler" where
  "HandleEPRT h args =
     (if \<not> port (config h) then Inr (writeReply h (newReply ''550'' ''EPRT mode not available''))
      else
        (case parseEPRTArg args of
           Panic pn \<Rightarrow> Inl pn
         | Err err \<Rightarrow>
             if err = errInvalidAddrFamily
             then Inr (writeReply h (newReply ''522'' ''Unrecognized address family identifier.''))
             else Inr (writeError501Args h)
         | Ok addr \<Rightarrow>
             Inr (writeReply (initActiveDataConn h addr)
                    (newReply ''200'' ''EPRT command accepted.''))))"

definition HandlePASV :: "handler \<Rightarrow> env \<Rightarrow> string \<Rightarrow> handler" where
  "HandlePASV h e arg =
     (if \<not> pasv (config h) then writeReply h (newReply ''550'' ''PASV mode not available'')
      else if arg \<noteq> [] then writeError501Args h
      else
        (case initPassiveDataConn e h of
           (h', Inl err) \<Rightarrow> writeError421Server h'
         | (h', Inr addr) \<Rightarrow>
             (case net_SplitHostPort addr of
                Inl err \<Rightarrow> writeError421Server h'
              | Inr (hst, prt) \<Rightarrow>
                  if (case ParseIP e addr of None \<Rightarrow> True | Some ip \<Rightarrow> \<not> isTo4 ip)
                  then writeReply h' (newReply ''421'' ''PASV failed, use EPSV.'')
                  else
                    (case getPORTString hst prt of
                       Inl err \<Rightarrow> writeError421Server h'
                     | Inr msg \<Rightarrow>
                         writeReply h'
                           (newReply ''227'' (''Entering Passive Mode ('' @ msg @ '').''))))))"

definition HandleEPSV :: "handler \<Rightarrow> env \<Rightarrow> string \<Rightarrow> handler" where
  "HandleEPSV h e arg =
     (if \<not> pasv (config h) then writeReply h (newReply ''550'' ''PASV mode not available'')
      else if arg \<noteq> [] then writeError501Args h
      else
        (case initPassiveDataConn e h of
           (h', Inl err) \<Rightarrow> writeReply h' (newReply ''421'' ''EPSV command failed.'')
         | (h', Inr addr) \<Rightarrow>
             (case net_SplitHostPort addr of
                Inl err \<Rightarrow> writeReply h' (newReply ''421'' ''EPSV command failed.'')
              | Inr (hst, prt) \<Rightarrow>
                  writeReply h'
                    (newReply ''229'' (''Entering Extended Passive Mode (|||'' @ prt @ ''|).'')))))"

text \<open>\<open>h.dataConn.write(data)\<close>: the call on the nil interface panics.\<close>

definition dataConn_write :: "handler \<Rightarrow> env \<Rightarrow> string \<Rightarrow> panic + error option \<times> handler" where
  "dataConn_write h e data =
     (case dataConn h of
        None \<Rightarrow> Inl NilDereference
      | Some (Active s) \<Rightarrow>
          (let (err, evs) = serverActiveDataConn_write s (DialTimeout e (address s)) data
           in Inr (err, h\<lparr>dataEvents := dataEvents h @ evs\<rparr>))
      | Some (Passive s) \<Rightarrow>
          (let (err, evs) = serverPassiveDataConn_write s (Accept e) data
           in Inr (err, h\<lparr>dataEvents := dataEvents h @ evs\<rparr>)))"

definition HandleLIST :: "handler \<Rightarrow> env \<Rightarrow> string \<Rightarrow> panic + handler" where
  "HandleLIST h e d =
     (let p = (if d = [] then dir h else if path_IsAbs d then d else path_Join [dir h, d]) in
      case Lstat e p of
        Inl err \<Rightarrow> Inr (writeReply h (newReply ''550'' ''Directory listing failed.''))
      | Inr f \<Rightarrow>
          if \<not> IsDir f then Inr (writeReply h (newReply ''550'' (d @ '': not a directory'')))
          else
            (case ls_l e p of
               Inl err \<Rightarrow> Inr (writeReply h (newReply ''550'' ''Directory listing failed.''))
             | Inr list \<Rightarrow>
                 (let data = replaceLF list;
                      h1 = writeReply h (newReply ''150'' ''Here comes the directory listing.'')
                  in case dataConn_write h1 e data of
                       Inl pn \<Rightarrow> Inl pn
                     | Inr (Some err, h2) \<Rightarrow>
                         Inr (writeReply h2 (newReply ''451'' ''Failed to open data connection.''))
                     | Inr (None, h2) \<Rightarrow>
                         Inr (writeReply h2
                                (newReply ''226'' ''Listing successfully transfered.'')))))"

definition HandleRETR :: "handler \<Rightarrow> env \<Rightarrow> string \<Rightarrow> panic + handler" where
  "HandleRETR h e file0 =
     (let file = (if \<not> path_IsAbs file0 then path_Join [dir h, file0] else file0) in
      case Lstat e file of
        Inl err \<Rightarrow> Inr (writeError550FileAction h)
      | Inr f \<Rightarrow>
          if \<not> IsRegular f then Inr (writeError550FileAction h)
          else
            (case ReadFile e file of
               Inl err \<Rightarrow> Inr (writeError550FileAction h)
             | Inr contents \<Rightarrow>
                 (let data = replaceLF contents;
                      h1 = writeReply h (newReply ''150'' ''Here comes the file.'')
                  in case dataConn_write h1 e data of
                       Inl pn \<Rightarrow> Inl pn
                     | Inr (Some err, h2) \<Rightarrow>
                         Inr (writeReply h2 (newReply ''451'' ''Error occurred in transfer.''))
                     | Inr (None, h2) \<Rightarrow>
                         Inr (writeReply h2 (newReply ''226'' ''File transfered successfully.'')))))"

definition helpMessage :: string where
  "helpMessage =
     ''The following commands are recogized:'' @ [CHR 0x0A] @
     ''USER   PASS   CWD    CDUP   PWD'' @ [CHR 0x0A] @
     ''PASV   EPSV   PORT   EPRT   RETR'' @ [CHR 0x0A] @
     ''LIST   HELP   QUIT''"

definition HandleHELP :: "handler \<Rightarrow> string \<Rightarrow> handler" where
  "HandleHELP h arg =
     (if arg \<noteq> [] then writeError501Args h else writeReply h (newReply ''214'' helpMessage))"

definition HandleQUIT :: "handler \<Rightarrow> string \<Rightarrow> handler" where
  "HandleQUIT h arg = writeReply h (newReply ''221'' ''Goodbye.'')"

subsection \<open>The command loop\<close>

text \<open>Calling the function a command table holds.\<close>

definition callHandler :: "handleFunc \<Rightarrow> handler \<Rightarrow> env \<Rightarrow> string \<Rightarrow> panic + handler" where
  "callHandler f h e arg =
     (case f of
        hUSER \<Rightarrow> Inr (HandleUSER h arg)
      | hPASS \<Rightarrow> Inr (HandlePASS h arg)
      | hHELP \<Rightarrow> Inr (HandleHELP h arg)
      | hPWD \<Rightarrow> Inr (HandlePWD h arg)
      | hCWD \<Rightarrow> Inr (HandleCWD h e arg)
      | hCDUP \<Rightarrow> Inr (HandleCDUP h e arg)
      | hPORT \<Rightarrow> Inr (HandlePORT h arg)
      | hEPRT \<Rightarrow> HandleEPRT h arg
      | hPASV \<Rightarrow> Inr (HandlePASV h e arg)
      | hEPSV \<Rightarrow> Inr (HandleEPSV h e arg)
      | hLIST \<Rightarrow> HandleLIST h e arg
      | hRETR \<Rightarrow> HandleRETR h e arg
      | hQUIT \<Rightarrow> Inr (HandleQUIT h arg)
      | h530NotLoggedIn \<Rightarrow> Inr (writeError530NotLoggedIn h arg))"

text \<open>
  A session after a command: still open, closed (\<open>handle\<close> has returned and closed the
  connection), or the process has panicked.
\<close>

datatype session = Continue handler | Closed handler | Crashed panic

text \<open>The body of the loop of \<open>handle\<close>, from a command that \<open>readCommand\<close> returned.\<close>

definition handleCommand :: "env \<Rightarrow> handler \<Rightarrow> Command \<Rightarrow> session" where
  "handleCommand e h cmd =
     (let code = strings_ToUpper (Code cmd) in
      if code = ''QUIT'' then Closed (HandleQUIT h (Arugment cmd))
      else
        (case commands h code of
           None \<Rightarrow> Continue (writeReply h (newReply ''500'' (code @ '': command not recognized.'')))
         | Some f \<Rightarrow>
             (case callHandler f h e (Arugment cmd) of
                Inl pn \<Rightarrow> Crashed pn
              | Inr h' \<Rightarrow> Continue h')))"

text \<open>
  The part of \<open>readCommand\<close> after the line is read. The regular expression
  \<open>^[a-zA-Z]{3,4} *.*\<close> matches exactly the lines that start with three ASCII letters.
\<close>

definition isLetter :: "char \<Rightarrow> bool" where
  "isLetter c =
     (let n = (of_char c :: nat) in (65 \<le> n \<and> n \<le> 90) \<or> (97 \<le> n \<and> n \<le> 122))"

definition commandRegex_MatchString :: "string \<Rightarrow> bool" where
  "commandRegex_MatchString msg = (3 \<le> length msg \<and> list_all isLetter (take 3 msg))"

definition CRLF :: string where
  "CRLF = [CHR 0x0D, CHR 0x0A]"

definition parseCommand :: "string \<Rightarrow> error + Command" where
  "parseCommand msg =
     (if \<not> commandRegex_MatchString msg
      then Inl (Errorf (''Unrecognized command: '' @ strings_TrimSet msg CRLF))
      else
        (case IndexByte msg (CHR '' '') of
           None \<Rightarrow> Inr \<lparr>Code = strings_TrimSet msg CRLF, Arugment = []\<rparr>
         | Some ind \<Rightarrow>
             if ind \<le> 0 then Inr \<lparr>Code = strings_TrimSet msg CRLF, Arugment = []\<rparr>
             else Inr \<lparr>Code = take ind msg,
                       Arugment = strings_TrimSet (drop (ind + 1) msg) CRLF\<rparr>))"

text \<open>
  One turn of the loop of \<open>handle\<close>, from a line read on the control connection. The
  calls of the logger (\<open>logReceive\<close>, \<open>logMessage\<close>, \<open>logError\<close>) are left out.
\<close>

definition handleLine :: "env \<Rightarrow> handler \<Rightarrow> string \<Rightarrow> session" where
  "handleLine e h msg =
     (case parseCommand msg of
        Inl err \<Rightarrow> Continue (writeReply h (newReply ''500'' ''Unrecognized command.''))
      | Inr cmd \<Rightarrow> handleCommand e h cmd)"

text \<open>
  The loop over the lines a client sends, each with the answers of the outside world
  while it is handled. The loop stops when the session is closed or the process panics.
\<close>

fun run :: "handler \<Rightarrow> (env \<times> string) list \<Rightarrow> session" where
  "run h [] = Continue h"
| "run h ((e, msg) # rest) =
     (case handleLine e h msg of
        Continue h' \<Rightarrow> run h' rest
      | Closed h' \<Rightarrow> Closed h'
      | Crashed pn \<Rightarrow> Crashed pn)"

text \<open>\<open>handle\<close>: the welcome message, then the loop.\<close>

definition handle :: "handler \<Rightarrow> (env \<times> string) list \<Rightarrow> session" where
  "handle h inputs = run (writeReply h (newReply ''220'' ''Welcome to Erik's FTP Server'')) inputs"

section \<open>Configuration loader\<close>

text \<open>
  \<open>bufio.Scanner\<close> with the default split function: the text is cut at every line feed,
  a last line without line feed counts when it is not empty, and one trailing carriage
  return is dropped from a line. A line of 65536 bytes or more stops the scanner with
  \<open>ErrTooLong\<close>.
\<close>

definition rawLines :: "string \<Rightarrow> string list" where
  "rawLines text =
     (let fs = strings_Split text (CHR 0x0A) in if last fs = [] then butlast fs else fs)"

definition dropCR :: "string \<Rightarrow> string" where
  "dropCR l = (if l \<noteq> [] \<and> last l = CHR 0x0D then butlast l else l)"

definition MaxScanTokenSize :: nat where
  "MaxScanTokenSize = 65536"

definition parseBool :: "string \<Rightarrow> error + bool" where
  "parseBool b =
     (if strings_ToUpper b = ''YES'' then Inr True
      else if strings_ToUpper b = ''NO'' then Inr False
      else Inl (Errorf (''config.go: unrecognized boolean value '' @ b)))"

text \<open>
  The loop of \<open>loadConfig\<close> over the scanned lines. \<open>line[0]\<close> panics on an empty
  line. What the loop prints on standard output is not modelled.
\<close>

fun configLoop :: "config \<Rightarrow> string list \<Rightarrow> config res" where
  "configLoop c [] = Ok c"
| "configLoop c (raw # rest) =
     (if length raw \<ge> MaxScanTokenSize then Err (SysError ''bufio.Scanner: token too long'')
      else
        (let line = dropCR raw in
         if line = [] then Panic IndexOutOfRange
         else if hd line = CHR ''#'' then configLoop c rest
         else
           (let setting = strings_Split line (CHR ''='') in
            if length setting \<noteq> 2 then configLoop c rest
            else if setting ! 0 = ''logdirectory'' then configLoop (c\<lparr>logDir := setting ! 1\<rparr>) rest
            else if setting ! 0 = ''numlogfiles'' then
              (case scanInt (setting ! 1) of
                 None \<Rightarrow> configLoop (c\<lparr>nLogFiles := 5\<rparr>) rest
               | Some n \<Rightarrow> configLoop (c\<lparr>nLogFiles := n\<rparr>) rest)
            else if setting ! 0 = ''usernamefile'' then configLoop (c\<lparr>usersFile := setting ! 1\<rparr>) rest
            else if setting ! 0 = ''port_mode'' then
              (case parseBool (setting ! 1) of
                 Inl err \<Rightarrow> configLoop c rest
               | Inr b \<Rightarrow> configLoop (c\<lparr>port := b\<rparr>) rest)
            else if setting ! 0 = ''pasv_mode'' then
              (case parseBool (setting ! 1) of
                 Inl err \<Rightarrow> configLoop c rest
               | Inr b \<Rightarrow> configLoop (c\<lparr>pasv := b\<rparr>) rest)
            else configLoop c rest)))"

text \<open>
  \<open>loadConfig\<close>; \<open>file\<close> is the result of opening the file at \<open>path\<close>, an error or
  the text of the file.
\<close>

definition loadConfig :: "error + string \<Rightarrow> config res" where
  "loadConfig file =
     (case file of
        Inl err \<Rightarrow> Err err
      | Inr text \<Rightarrow>
          configLoop
            \<lparr>logDir = ''/var/spool/logfiles'', nLogFiles = 5, usersFile = [],
             port = False, pasv = True\<rparr>
            (rawLines text))"

section \<open>Predicates of the properties\<close>

text \<open>A non-empty string of decimal digits.\<close>

definition decimal :: "string \<Rightarrow> bool" where
  "decimal s = (s \<noteq> [] \<and> list_all isDigit s)"

text \<open>The command codes that the table of a session not logged in answers with 530.\<close>

definition gated :: "string list" where
  "gated = [''PWD'', ''CWD'', ''CDUP'', ''PORT'', ''EPRT'', ''PASV'', ''EPSV'', ''LIST'', ''RETR'']"

definition preAuthGate :: "handler \<Rightarrow> bool" where
  "preAuthGate h =
     (\<not> isLoggedIn h \<longrightarrow> list_all (\<lambda>c. commands h c = Some h530NotLoggedIn) gated)"

text \<open>
  In a logged-in session the table sends \<open>CWD\<close> and \<open>CDUP\<close> to their handlers.
\<close>

definition loggedInTable :: "handler \<Rightarrow> bool" where
  "loggedInTable h =
     (isLoggedIn h \<longrightarrow> commands h ''CWD'' = Some hCWD \<and> commands h ''CDUP'' = Some hCDUP)"

text \<open>The second session has the command table and the login flag of the first.\<close>

definition sameLogin :: "handler \<Rightarrow> handler \<Rightarrow> bool" where
  "sameLogin h h' = (commands h' = commands h \<and> isLoggedIn h' = isLoggedIn h)"

text \<open>A path is lexically clean when \<open>path.Clean\<close> returns it unchanged.\<close>

definition canonical :: "string \<Rightarrow> bool" where
  "canonical p = (path_Clean p = p)"

text \<open>The status codes of the replies of a session, in order.\<close>

definition codes :: "session \<Rightarrow> string list" where
  "codes s =
     (case s of
        Continue h \<Rightarrow> map StatusCode (replies h)
      | Closed h \<Rightarrow> map StatusCode (replies h)
      | Crashed pn \<Rightarrow> [])"

section \<open>A server and a client for the examples\<close>

text \<open>
  A server with PORT and EPRT enabled and PASV disabled, started in \<open>/srv/ftp\<close>, with
  the user \<open>alice\<close>; a client at 192.0.2.7 whose data connections succeed. The
  directories \<open>/srv/ftp\<close> and \<open>/tmp\<close> exist (\<open>/tmp\<close> under several spellings), and
  \<open>/srv/ftp/notes.txt\<close> is a file of two lines, the first ended by CR LF and the
  second by LF.
\<close>

definition exConfig :: config where
  "exConfig =
     \<lparr>logDir = ''/var/spool/logfiles'', nLogFiles = 5, usersFile = ''users'',
      port = True, pasv = False\<rparr>"

definition exConn :: netConn where
  "exConn = \<lparr>RemoteAddr = ''192.0.2.7:50000'', WriteErr = None, CloseErr = None\<rparr>"

definition exDataConn :: netConn where
  "exDataConn = \<lparr>RemoteAddr = ''192.0.2.7:50001'', WriteErr = None, CloseErr = None\<rparr>"

definition exUsers :: "string \<rightharpoonup> string" where
  "exUsers = [''alice'' \<mapsto> ''secret'']"

definition exNotes :: string where
  "exNotes = ''a'' @ [CHR 0x0D, CHR 0x0A] @ ''b'' @ [CHR 0x0A]"

definition exLstat :: "string \<Rightarrow> error + FileInfo" where
  "exLstat p =
     (if p \<in> {''/srv/ftp'', ''/srv'', ''/tmp'', ''/tmp/../tmp/''}
      then Inr \<lparr>IsDir = True, IsRegular = False\<rparr>
      else if p = ''/srv/ftp/notes.txt'' then Inr \<lparr>IsDir = False, IsRegular = True\<rparr>
      else Inl (SysError ''no such file or directory''))"

definition exReadFile :: "string \<Rightarrow> error + string" where
  "exReadFile p =
     (if p = ''/srv/ftp/notes.txt'' then Inr exNotes
      else Inl (SysError ''no such file or directory''))"

definition exDial :: "string \<Rightarrow> error + netConn" where
  "exDial addr = Inr exDataConn"

definition exParseIP :: "string \<Rightarrow> IP option" where
  "exParseIP s = None"

definition exEnv :: env where
  "exEnv =
     \<lparr>Getwd = Inr ''/srv/ftp'', Lstat = exLstat, ReadFile = exReadFile,
      ls_l = exReadFile, Listen = Inr ''[::]:40000'', Accept = Inr exDataConn,
      DialTimeout = exDial, ParseIP = exParseIP\<rparr>"

text \<open>The lines of a client, each sent while the outside world is \<open>exEnv\<close>.\<close>

definition line :: "string \<Rightarrow> env \<times> string" where
  "line s = (exEnv, s @ CRLF)"

definition exLogin :: "(env \<times> string) list" where
  "exLogin = [line ''USER alice'', line ''PASS secret'']"

definition exWrongPassword :: "(env \<times> string) list" where
  "exWrongPassword = [line ''USER alice'', line ''PASS wrong'']"

text \<open>The session of the examples, from \<open>newHandler\<close> on.\<close>

definition exSession :: "(env \<times> string) list \<Rightarrow> session" where
  "exSession inputs =
     (case newHandler exEnv exConn exConfig exUsers of
        Inl err \<Rightarrow> Crashed NilDereference
      | Inr h \<Rightarrow> handle h inputs)"

text \<open>
  A session before its command table is set, and a data connection from another host.
\<close>

definition exBare :: handler where
  "exBare =
     \<lparr>config = exConfig, conn = exConn, username = [], dir = ''/srv/ftp'', dataConn = None,
      users = exUsers, isLoggedIn = False, commands = Map.empty, replies = [],
      dataEvents = []\<rparr>"

definition exStranger :: netConn where
  "exStranger = \<lparr>RemoteAddr = ''198.51.100.9:4444'', WriteErr = None, CloseErr = None\<rparr>"

text \<open>What is seen of a session: its directory, its login flag, its data connections.\<close>

definition dirOf :: "session \<Rightarrow> string option" where
  "dirOf s = (case s of Continue h \<Rightarrow> Some (dir h) | Closed h \<Rightarrow> Some (dir h) | Crashed pn \<Rightarrow> None)"

definition loggedIn :: "session \<Rightarrow> bool" where
  "loggedIn s = (case s of Continue h \<Rightarrow> isLoggedIn h | Closed h \<Rightarrow> isLoggedIn h | Crashed pn \<Rightarrow> False)"

definition dataOf :: "session \<Rightarrow> netEvent list" where
  "dataOf s = (case s of Continue h \<Rightarrow> dataEvents h | Closed h \<Rightarrow> dataEvents h | Crashed pn \<Rightarrow> [])"

section \<open>Facts about the library functions\<close>

lemma strings_Split_not_Nil: "strings_Split s sep \<noteq> []"
  by (induction s) (auto split: list.splits)

lemma strings_Split_no_sep: "sep \<notin> set a \<Longrightarrow> strings_Split a sep = [a]"
  by (induction a) auto

lemma strings_Split_append:
  "sep \<notin> set a \<Longrightarrow> strings_Split (a @ sep # r) sep = a # strings_Split r sep"
  by (induction a) auto

lemma trimLeft_single: "trimLeft s [c] = dropWhile (\<lambda>x. x = c) s"
proof (induction s)
  case Nil
  show ?case by (subst trimLeft.simps) simp
next
  case (Cons x xs)
  show ?case
  proof (cases "x = c")
    case True
    have "trimLeft (x # xs) [c] = trimLeft xs [c]"
      using True by (subst trimLeft.simps) simp
    with Cons True show ?thesis by simp
  next
    case False
    then show ?thesis by (subst trimLeft.simps) auto
  qed
qed

lemma strings_Trim_single:
  "strings_Trim s [c] = dropWhile (\<lambda>x. x = c) (rev (dropWhile (\<lambda>x. x = c) (rev s)))"
  by (simp add: strings_Trim_def trimRight_def trimLeft_single)

lemma spaceLen_digit: "isDigit c \<Longrightarrow> spaceLen (c # cs) = 0"
  by (auto simp: spaceLen_def isDigit_def split: list.splits)

lemma SkipSpace_digit: "isDigit c \<Longrightarrow> SkipSpace (c # cs) = Some (c # cs)"
proof -
  assume d: "isDigit c"
  then have "c \<noteq> CHR 0x0A" by (auto simp: isDigit_def)
  with d show ?thesis by (subst SkipSpace.simps) (simp add: spaceLen_digit)
qed

lemma scanUint_decimal:
  assumes "decimal s" "atoi s < 2 ^ bits"
  shows "scanUint bits s = Some (atoi s)"
proof -
  from assms(1) obtain c cs where s: "s = c # cs" and dc: "isDigit c" and all: "list_all isDigit s"
    by (cases s) (auto simp: decimal_def)
  have tw: "takeWhile isDigit s = s"
    using all by (simp add: list_all_iff)
  have "SkipSpace s = Some s"
    unfolding s using dc by (rule SkipSpace_digit)
  with tw assms(2) s show ?thesis
    by (simp add: scanUint_def Let_def)
qed

lemma port_word:
  assumes "a \<le> 255" "b \<le> 255"
  shows "unat ((of_nat a :: 16 word) * 256 + of_nat b) = a * 256 + b"
proof -
  have lt: "a * 256 + b < 2 ^ 16"
    using assms by simp
  have "unat ((of_nat a :: 16 word) * 256 + of_nat b) = (a * 256 + b) mod 2 ^ 16"
    by (simp add: unat_word_ariths unat_of_nat mod_simps)
  with lt show ?thesis
    by simp
qed

lemma Sscanf_uint16_decimal:
  assumes "decimal s" "atoi s \<le> 255"
  shows "Sscanf_uint16 s 0 = of_nat (atoi s)"
proof -
  from assms(2) have "atoi s < 2 ^ 16" by simp
  with assms(1) have "scanUint 16 s = Some (atoi s)" by (rule scanUint_decimal)
  then show ?thesis by (simp add: Sscanf_uint16_def)
qed

lemma hostPortToAddr_arity:
  "length (strings_Split hostPort (CHR '','')) \<noteq> 6 \<Longrightarrow>
   hostPortToAddr hostPort = Inl (Errorf (''invalid argument: '' @ hostPort))"
  by (simp add: hostPortToAddr_def Let_def)

lemma hostPortToAddr_in_range:
  assumes split: "strings_Split hostPort (CHR '','') = [a, b, c, d, s1, s2]"
    and s1: "decimal s1" "atoi s1 \<le> 255"
    and s2: "decimal s2" "atoi s2 \<le> 255"
  shows "hostPortToAddr hostPort =
           Inr (net_JoinHostPort (a @ ''.'' @ b @ ''.'' @ c @ ''.'' @ d)
                  (itoa (atoi s1 * 256 + atoi s2)))"
proof -
  have p: "unat (Sscanf_uint16 s1 0 * 256 + Sscanf_uint16 s2 0) = atoi s1 * 256 + atoi s2"
    using s1 s2 by (simp only: Sscanf_uint16_decimal port_word)
  have "atoi s1 * 256 + atoi s2 \<le> MaxUint16"
    using s1(2) s2(2) by (simp add: MaxUint16_def)
  with p have le: "\<not> unat (Sscanf_uint16 s1 0 * 256 + Sscanf_uint16 s2 0) > MaxUint16"
    by simp
  show ?thesis
    unfolding hostPortToAddr_def Let_def split
    using le p by simp
qed

text \<open>
  C6 (amended). \<open>hostPortToAddr\<close> rejects an argument that does not have six fields
  between commas. When it has six, \<open>a,b,c,d,p1,p2\<close>, and \<open>p1\<close> and \<open>p2\<close> are decimal
  numerals of value at most 255, it returns the host \<open>a.b.c.d\<close> joined with the port
  \<open>p1 * 256 + p2\<close>; the fields \<open>a\<close> to \<open>d\<close> are taken as they are, whatever they hold.
\<close>

theorem hostPortToAddr_arity_and_port:
  "(length (strings_Split hostPort (CHR '','')) \<noteq> 6 \<longrightarrow> isl (hostPortToAddr hostPort)) \<and>
   (strings_Split hostPort (CHR '','') = [a, b, c, d, s1, s2] \<and>
    decimal s1 \<and> atoi s1 \<le> 255 \<and> decimal s2 \<and> atoi s2 \<le> 255 \<longrightarrow>
    hostPortToAddr hostPort =
      Inr (net_JoinHostPort (a @ ''.'' @ b @ ''.'' @ c @ ''.'' @ d)
             (itoa (atoi s1 * 256 + atoi s2))))"
  using hostPortToAddr_arity [of hostPort] hostPortToAddr_in_range [of hostPort a b c d s1 s2]
  by simp

theorem hostPortToAddr_arity_and_port_witness:
  "isl (hostPortToAddr ''127,0,0,1,4'') \<and>
   hostPortToAddr ''127,0,0,1,4,0'' = Inr (net_JoinHostPort ''127.0.0.1'' (itoa 1024))"
proof -
  have five: "length (strings_Split ''127,0,0,1,4'' (CHR '','')) \<noteq> 6"
    by simp
  have six: "strings_Split ''127,0,0,1,4,0'' (CHR '','') = [''127'', ''0'', ''0'', ''1'', ''4'', ''0'']"
    by simp
  have dec: "decimal ''4''" "atoi ''4'' \<le> 255" "decimal ''0''" "atoi ''0'' \<le> 255"
    by (simp_all add: decimal_def isDigit_def atoi_def digitVal_def)
  have v: "atoi ''4'' * 256 + atoi ''0'' = 1024"
    by (simp add: atoi_def digitVal_def)
  from hostPortToAddr_arity_and_port [of "''127,0,0,1,4''" a b c d s1 s2] five
  have one: "isl (hostPortToAddr ''127,0,0,1,4'')"
    by blast
  from hostPortToAddr_arity_and_port [of "''127,0,0,1,4,0''" "''127''" "''0''" "''0''" "''1''" "''4''" "''0''"]
    six dec v
  have two: "hostPortToAddr ''127,0,0,1,4,0'' = Inr (net_JoinHostPort ''127.0.0.1'' (itoa 1024))"
    by simp
  from one two show ?thesis by simp
qed

text \<open>
  C6, counterexample. The claim says that only arguments whose octets are at most 255
  are accepted; the code accepts the first octet 999.
\<close>

theorem hostPortToAddr_octet_counterexample:
  "hostPortToAddr ''999,0,0,1,4,0'' = Inr ''999.0.0.1:1024''"
  by (simp add: hostPortToAddr_def Sscanf_uint16_def scanUint_def SkipSpace.simps spaceLen_def
        isDigit_def atoi_def digitVal_def MaxUint16_def itoa.simps net_JoinHostPort_def)

text \<open>
  C10. \<open>loadConfig\<close> panics on a file with an empty line: \<open>line[0]\<close> is out of range.
\<close>

theorem loadConfig_empty_line_panics:
  "loadConfig (Inr (''port_mode=YES'' @ [CHR 0x0A, CHR 0x0A] @ ''pasv_mode=NO'')) =
     Panic IndexOutOfRange"
  by (simp add: loadConfig_def rawLines_def dropCR_def MaxScanTokenSize_def parseBool_def
        strings_ToUpper_def upperByte_def)

section \<open>Paths\<close>

lemma backtrack_ge: "dotdot \<le> w \<Longrightarrow> dotdot \<le> backtrack out dotdot w"
proof (induction out dotdot w rule: backtrack.induct)
  case (1 out dotdot w)
  show ?case
  proof (cases "w > dotdot \<and> out ! w \<noteq> CHR ''/''")
    case True
    then have "dotdot \<le> w - 1" by arith
    with 1 True show ?thesis by (subst backtrack.simps) simp
  next
    case False
    with 1(2) show ?thesis by (subst backtrack.simps) auto
  qed
qed

lemma take_keeps_hd: "0 < n \<Longrightarrow> out \<noteq> [] \<Longrightarrow> take n out \<noteq> [] \<and> hd (take n out) = hd out"
  by (cases out; cases n) auto

lemma backtrack_rooted:
  assumes "out \<noteq> []" "hd out = CHR ''/''" "1 \<le> dotdot" "dotdot < length out"
  shows "take (backtrack out dotdot (length out - 1)) out \<noteq> [] \<and>
         hd (take (backtrack out dotdot (length out - 1)) out) = CHR ''/''"
proof -
  from assms(4) have "dotdot \<le> length out - 1" by arith
  then have "dotdot \<le> backtrack out dotdot (length out - 1)" by (rule backtrack_ge)
  with assms(3) have "0 < backtrack out dotdot (length out - 1)" by arith
  with assms(1,2) show ?thesis using take_keeps_hd by metis
qed

lemma cleanLoop_rooted:
  "out \<noteq> [] \<Longrightarrow> hd out = CHR ''/'' \<Longrightarrow> 1 \<le> dotdot \<Longrightarrow>
   cleanLoop True out dotdot p \<noteq> [] \<and> hd (cleanLoop True out dotdot p) = CHR ''/''"
proof (induction "True" out dotdot p rule: cleanLoop.induct)
  case (1 out dotdot p)
  show ?case
  proof (cases p)
    case Nil
    with 1 show ?thesis by (subst (1 2) cleanLoop.simps) simp
  next
    case (Cons c r)
    note IH = 1(1-6) [OF Cons]
    show ?thesis
      apply (subst (1 2) cleanLoop.simps)
      using Cons 1(7-9) IH backtrack_rooted [OF 1(7,8,9)]
      apply (simp add: Let_def)
      done
  qed
qed


lemma path_Clean_IsAbs: "path_IsAbs p \<Longrightarrow> path_IsAbs (path_Clean p)"
  using cleanLoop_rooted [of "''/''" 1 "tl p"]
  by (auto simp: path_Clean_def path_IsAbs_def Let_def)

lemma path_Join_IsAbs: "path_IsAbs a \<Longrightarrow> path_IsAbs (path_Join [a, d])"
proof -
  assume a: "path_IsAbs a"
  then have ne: "a \<noteq> []" and "hd a = CHR ''/''" by (simp_all add: path_IsAbs_def)
  then have "path_IsAbs (a @ ''/'' @ d)" by (simp add: path_IsAbs_def)
  then have "path_IsAbs (path_Clean (a @ ''/'' @ d))" by (rule path_Clean_IsAbs)
  with ne show ?thesis by (simp add: path_Join_def)
qed

lemmas reply_defs = writeReply_def writeError501Args_def writeError550FileAction_def
  writeError530NotLoggedIn_def writeError421Server_def

lemma sameLogin_refl: "sameLogin h h"
  by (simp add: sameLogin_def)

lemma HandleUSER_frame: "sameLogin h (HandleUSER h a)" "dir (HandleUSER h a) = dir h"
  by (simp_all add: sameLogin_def HandleUSER_def reply_defs)

lemma HandlePASS_dir: "dir (HandlePASS h a) = dir h"
  by (simp add: HandlePASS_def reply_defs initCommandTableLoggedIn_def split: option.splits)

lemma HandleHELP_frame: "sameLogin h (HandleHELP h a)" "dir (HandleHELP h a) = dir h"
  by (simp_all add: sameLogin_def HandleHELP_def reply_defs)

lemma HandlePWD_frame: "sameLogin h (HandlePWD h a)" "dir (HandlePWD h a) = dir h"
  by (simp_all add: sameLogin_def HandlePWD_def reply_defs)

lemma HandleCWD_frame: "sameLogin h (HandleCWD h e a)"
  by (simp add: sameLogin_def HandleCWD_def reply_defs Let_def split: sum.splits)

lemma HandleCDUP_frame: "sameLogin h (HandleCDUP h e a)"
  using HandleCWD_frame [of h e "''..''"]
  by (simp add: HandleCDUP_def reply_defs sameLogin_def)

lemma HandlePORT_frame: "sameLogin h (HandlePORT h a)" "dir (HandlePORT h a) = dir h"
  by (simp_all add: sameLogin_def HandlePORT_def reply_defs initActiveDataConn_def split: sum.splits)

lemma HandleEPRT_frame:
  "HandleEPRT h a = Inr h' \<Longrightarrow> sameLogin h h' \<and> dir h' = dir h"
  by (auto simp: sameLogin_def HandleEPRT_def reply_defs initActiveDataConn_def
           split: if_splits res.splits)

lemma initPassiveDataConn_frame:
  "initPassiveDataConn e h = (h', r) \<Longrightarrow>
   sameLogin h h' \<and> dir h' = dir h \<and> replies h' = replies h \<and> config h' = config h"
  by (auto simp: sameLogin_def initPassiveDataConn_def Let_def split: sum.splits)

lemma HandlePASV_frame: "sameLogin h (HandlePASV h e a) \<and> dir (HandlePASV h e a) = dir h"
proof -
  obtain h' r where i: "initPassiveDataConn e h = (h', r)" by (cases "initPassiveDataConn e h")
  from initPassiveDataConn_frame [OF i] show ?thesis
    by (simp add: HandlePASV_def i sameLogin_def reply_defs split: sum.splits option.splits prod.splits)
qed

lemma HandleEPSV_frame: "sameLogin h (HandleEPSV h e a) \<and> dir (HandleEPSV h e a) = dir h"
proof -
  obtain h' r where i: "initPassiveDataConn e h = (h', r)" by (cases "initPassiveDataConn e h")
  from initPassiveDataConn_frame [OF i] show ?thesis
    by (simp add: HandleEPSV_def i sameLogin_def reply_defs split: sum.splits option.splits prod.splits)
qed

lemma dataConn_write_frame:
  "dataConn_write h e d = Inr (err, h') \<Longrightarrow>
   sameLogin h h' \<and> dir h' = dir h \<and> replies h' = replies h"
  by (auto simp: sameLogin_def dataConn_write_def Let_def
           split: option.splits serverDataConn.splits prod.splits)

lemma HandleLIST_frame: "HandleLIST h e a = Inr h' \<Longrightarrow> sameLogin h h' \<and> dir h' = dir h"
  by (auto simp: HandleLIST_def Let_def reply_defs sameLogin_def
           split: sum.splits if_splits prod.splits option.splits
           dest!: dataConn_write_frame)

lemma HandleRETR_frame: "HandleRETR h e a = Inr h' \<Longrightarrow> sameLogin h h' \<and> dir h' = dir h"
  by (auto simp: HandleRETR_def Let_def reply_defs sameLogin_def
           split: sum.splits if_splits prod.splits option.splits
           dest!: dataConn_write_frame)

lemma HandleQUIT_frame: "sameLogin h (HandleQUIT h a)" "dir (HandleQUIT h a) = dir h"
  by (simp_all add: sameLogin_def HandleQUIT_def reply_defs)


section \<open>Invariants of a session\<close>

lemma preAuthGate_sameLogin: "sameLogin h h' \<Longrightarrow> preAuthGate h \<Longrightarrow> preAuthGate h'"
  by (simp add: sameLogin_def preAuthGate_def)

lemma preAuthGate_writeReply: "preAuthGate (writeReply h r) = preAuthGate h"
  by (simp add: preAuthGate_def writeReply_def)

lemma preAuthGate_HandlePASS: "preAuthGate h \<Longrightarrow> preAuthGate (HandlePASS h a)"
  by (simp add: HandlePASS_def preAuthGate_def reply_defs split: option.splits)

lemma callHandler_gate:
  "callHandler f h e a = Inr h' \<Longrightarrow> preAuthGate h \<Longrightarrow> preAuthGate h'"
proof (cases f)
  case hEPRT
  assume "callHandler f h e a = Inr h'" "preAuthGate h"
  with hEPRT show ?thesis
    using HandleEPRT_frame [of h a h'] preAuthGate_sameLogin by (auto simp: callHandler_def)
next
  case hLIST
  assume "callHandler f h e a = Inr h'" "preAuthGate h"
  with hLIST show ?thesis
    using HandleLIST_frame [of h e a h'] preAuthGate_sameLogin by (auto simp: callHandler_def)
next
  case hRETR
  assume "callHandler f h e a = Inr h'" "preAuthGate h"
  with hRETR show ?thesis
    using HandleRETR_frame [of h e a h'] preAuthGate_sameLogin by (auto simp: callHandler_def)
qed (auto simp: callHandler_def preAuthGate_HandlePASS writeError530NotLoggedIn_def
          preAuthGate_writeReply
      intro: preAuthGate_sameLogin HandleUSER_frame HandleHELP_frame HandlePWD_frame
        HandleCWD_frame HandleCDUP_frame HandlePORT_frame HandleQUIT_frame
        conjunct1 [OF HandlePASV_frame] conjunct1 [OF HandleEPSV_frame])

lemma handleLine_gate:
  "handleLine e h msg = Continue h' \<Longrightarrow> preAuthGate h \<Longrightarrow> preAuthGate h'"
  by (auto simp: handleLine_def handleCommand_def Let_def preAuthGate_writeReply
           split: sum.splits if_splits option.splits
           dest: callHandler_gate)

lemma run_gate: "run h ins = Continue h' \<Longrightarrow> preAuthGate h \<Longrightarrow> preAuthGate h'"
proof (induction ins arbitrary: h)
  case Nil
  then show ?case by simp
next
  case (Cons x xs)
  obtain e msg where x: "x = (e, msg)" by (cases x)
  from Cons.prems(1) obtain h1 where s: "handleLine e h msg = Continue h1" and r: "run h1 xs = Continue h'"
    by (auto simp: x split: session.splits)
  from s Cons.prems(2) have "preAuthGate h1" by (rule handleLine_gate)
  with r show ?case by (rule Cons.IH)
qed

lemma newHandler_init:
  "newHandler e cn c us = Inr h \<Longrightarrow> \<not> isLoggedIn h \<and> preAuthGate h \<and> Getwd e = Inr (dir h)"
  by (auto simp: newHandler_def Let_def initCommandTable_def initPassiveDataConn_def
        initActiveDataConn_def preAuthGate_def gated_def
      split: sum.splits if_splits option.splits prod.splits)


lemma HandleCWD_abs: "path_IsAbs (dir h) \<Longrightarrow> path_IsAbs (dir (HandleCWD h e a))"
  by (auto simp: HandleCWD_def Let_def reply_defs path_Join_IsAbs split: sum.splits)

lemma HandleCDUP_abs: "path_IsAbs (dir h) \<Longrightarrow> path_IsAbs (dir (HandleCDUP h e a))"
  by (simp add: HandleCDUP_def HandleCWD_abs reply_defs)

lemma callHandler_abs:
  "callHandler f h e a = Inr h' \<Longrightarrow> path_IsAbs (dir h) \<Longrightarrow> path_IsAbs (dir h')"
proof (cases f)
  case hEPRT
  assume "callHandler f h e a = Inr h'" "path_IsAbs (dir h)"
  with hEPRT show ?thesis
    using HandleEPRT_frame [of h a h'] by (auto simp: callHandler_def)
next
  case hLIST
  assume "callHandler f h e a = Inr h'" "path_IsAbs (dir h)"
  with hLIST show ?thesis
    using HandleLIST_frame [of h e a h'] by (auto simp: callHandler_def)
next
  case hRETR
  assume "callHandler f h e a = Inr h'" "path_IsAbs (dir h)"
  with hRETR show ?thesis
    using HandleRETR_frame [of h e a h'] by (auto simp: callHandler_def)
qed (auto simp: callHandler_def HandleUSER_frame HandlePASS_dir HandleHELP_frame HandlePWD_frame
          HandlePORT_frame HandleQUIT_frame HandlePASV_frame HandleEPSV_frame
          HandleCWD_abs HandleCDUP_abs writeError530NotLoggedIn_def writeReply_def)

lemma handleLine_abs:
  "handleLine e h msg = Continue h' \<Longrightarrow> path_IsAbs (dir h) \<Longrightarrow> path_IsAbs (dir h')"
  by (auto simp: handleLine_def handleCommand_def Let_def writeReply_def
           split: sum.splits if_splits option.splits
           dest: callHandler_abs)

lemma run_abs: "run h ins = Continue h' \<Longrightarrow> path_IsAbs (dir h) \<Longrightarrow> path_IsAbs (dir h')"
proof (induction ins arbitrary: h)
  case Nil
  then show ?case by simp
next
  case (Cons x xs)
  obtain e msg where x: "x = (e, msg)" by (cases x)
  from Cons.prems(1) obtain h1 where s: "handleLine e h msg = Continue h1" and r: "run h1 xs = Continue h'"
    by (auto simp: x split: session.splits)
  from s Cons.prems(2) have "path_IsAbs (dir h1)" by (rule handleLine_abs)
  with r show ?case by (rule Cons.IH)
qed

lemma HandleCWD_success:
  assumes "StatusCode (last (replies (HandleCWD h e a))) = ''250''"
  shows "dir (HandleCWD h e a) = (if path_IsAbs a then a else path_Join [dir h, a]) \<and>
         (\<exists>info. Lstat e (dir (HandleCWD h e a)) = Inr info \<and> IsDir info)"
  using assms
  by (auto simp: HandleCWD_def Let_def reply_defs newReply_def split: sum.splits if_splits)

lemma path_Join_relative: "a \<noteq> [] \<Longrightarrow> path_Join [a, d] = path_Clean (a @ ''/'' @ d)"
  by (simp add: path_Join_def)

section \<open>The claims\<close>

text \<open>
  C1. In a session that is not logged in, at any point of the command loop, a command
  whose code is one of PWD, CWD, CDUP, PORT, EPRT, PASV, EPSV, LIST, RETR (in any
  case of the letters) writes exactly one reply, whose status code is 530 and whose
  message is \<open>Log in with USER and PASS first.\<close>, and changes nothing else in the
  session.
\<close>

theorem preauth_commands_get_530:
  assumes "newHandler e0 cn c us = Inr h0"
    and "handle h0 ins = Continue h"
    and "\<not> isLoggedIn h"
    and "strings_ToUpper (Code cmd) \<in> set gated"
  shows "handleCommand e h cmd =
           Continue (h\<lparr>replies := replies h @
              [\<lparr>StatusCode = ''530'', Message = ''Log in with USER and PASS first.''\<rparr>]\<rparr>)"
proof -
  from assms(1) have "preAuthGate h0" by (simp add: newHandler_init)
  then have "preAuthGate (writeReply h0 (newReply ''220'' ''Welcome to Erik's FTP Server''))"
    by (simp add: preAuthGate_writeReply)
  with assms(2) have "preAuthGate h"
    unfolding handle_def by (rule run_gate)
  with assms(3) have tab: "list_all (\<lambda>c. commands h c = Some h530NotLoggedIn) gated"
    by (simp add: preAuthGate_def)
  with assms(4) have look: "commands h (strings_ToUpper (Code cmd)) = Some h530NotLoggedIn"
    by (simp add: list_all_iff)
  from assms(4) have nq: "strings_ToUpper (Code cmd) \<noteq> ''QUIT''"
    by (auto simp: gated_def)
  from look nq show ?thesis
    by (simp add: handleCommand_def Let_def callHandler_def writeError530NotLoggedIn_def
          writeReply_def newReply_def)
qed

text \<open>The definitions that evaluate the sessions of the examples.\<close>

lemmas eval_defs =
  exSession_def exEnv_def exConn_def exConfig_def exUsers_def exLogin_def exWrongPassword_def
  exDataConn_def exNotes_def exLstat_def exReadFile_def exDial_def exParseIP_def line_def CRLF_def
  newHandler_def handle_def handleLine_def handleCommand_def callHandler_def parseCommand_def
  commandRegex_MatchString_def isLetter_def IndexByte_def LastIndexByte_def strings_TrimSet_def
  strings_ToUpper_def upperByte_def initCommandTable_def initCommandTableLoggedIn_def
  initActiveDataConn_def initPassiveDataConn_def net_SplitHostPort_def scanInt_def
  SkipSpace.simps spaceLen_def isDigit_def atoi_def digitVal_def itoa_int_def itoa.simps
  incr_int64_def net_JoinHostPort_def writeReply_def newReply_def writeError501Args_def
  writeError550FileAction_def writeError530NotLoggedIn_def writeError421Server_def
  HandleUSER_def HandlePASS_def HandlePWD_def HandleCWD_def HandleCDUP_def HandlePORT_def
  HandleEPRT_def HandlePASV_def HandleEPSV_def HandleLIST_def HandleRETR_def HandleHELP_def
  HandleQUIT_def dataConn_write_def serverActiveDataConn_write_def
  serverPassiveDataConn_write_def replaceLF_def codes_def dirOf_def loggedIn_def dataOf_def
  Let_def

lemma exNewHandler: "\<exists>h0. newHandler exEnv exConn exConfig exUsers = Inr h0"
  by (simp add: eval_defs)

lemma exSession_handle:
  "newHandler exEnv exConn exConfig exUsers = Inr h0 \<Longrightarrow> exSession ins = handle h0 ins"
  by (simp add: exSession_def)

lemma exWrongPassword_session:
  "\<exists>h. exSession exWrongPassword = Continue h \<and> \<not> isLoggedIn h"
  by (simp add: eval_defs)

theorem preauth_commands_get_530_witness:
  "\<exists>h0 h. newHandler exEnv exConn exConfig exUsers = Inr h0 \<and>
     handle h0 exWrongPassword = Continue h \<and> \<not> isLoggedIn h \<and>
     strings_ToUpper (Code \<lparr>Code = ''pwd'', Arugment = []\<rparr>) \<in> set gated \<and>
     handleCommand exEnv h \<lparr>Code = ''pwd'', Arugment = []\<rparr> =
       Continue (h\<lparr>replies := replies h @
              [\<lparr>StatusCode = ''530'', Message = ''Log in with USER and PASS first.''\<rparr>]\<rparr>)"
proof -
  obtain h0 where n: "newHandler exEnv exConn exConfig exUsers = Inr h0"
    using exNewHandler by blast
  obtain h where s: "exSession exWrongPassword = Continue h" and l: "\<not> isLoggedIn h"
    using exWrongPassword_session by blast
  from s have r: "handle h0 exWrongPassword = Continue h"
    by (simp add: exSession_handle [OF n])
  have g: "strings_ToUpper (Code \<lparr>Code = ''pwd'', Arugment = []\<rparr>) \<in> set gated"
    by (simp add: strings_ToUpper_def upperByte_def gated_def)
  from preauth_commands_get_530 [OF n r l g] n r l g show ?thesis
    by blast
qed

text \<open>
  C2. A session logged in as \<open>alice\<close> stays logged in after \<open>USER bob\<close>: the reply is
  331, and the next \<open>PWD\<close> is answered with 257, without any \<open>PASS\<close>.
\<close>

theorem USER_keeps_login:
  "loggedIn (exSession (exLogin @ [line ''USER bob''])) \<and>
   codes (exSession (exLogin @ [line ''USER bob'', line ''PWD''])) =
     [''220'', ''331'', ''230'', ''331'', ''257'']"
  by (simp add: eval_defs)

text \<open>
  C4. \<open>RETR\<close> of a file that holds \<open>a CR LF b LF\<close> sends \<open>a CR CR LF b CR LF\<close>: the
  line feed that follows a carriage return gets a second carriage return.
\<close>

theorem RETR_doubles_CR:
  "dataOf (exSession (exLogin @ [line ''RETR notes.txt''])) =
     [EvDial ''192.0.2.7:50001'',
      EvWrite (''a'' @ [CHR 0x0D, CHR 0x0D, CHR 0x0A] @ ''b'' @ [CHR 0x0D, CHR 0x0A]),
      EvClose] \<and>
   codes (exSession (exLogin @ [line ''RETR notes.txt''])) =
     [''220'', ''331'', ''230'', ''150'', ''226'']"
  by (simp add: eval_defs path_IsAbs_def path_Join_def path_Clean_def cleanLoop.simps
        backtrack.simps)

text \<open>
  C7. \<open>EPRT !3!fe80::1!1234!\<close>, with the delimiter \<open>!\<close> and the unknown family 3, is
  answered 501: the argument is split on \<open>|\<close>, not on its delimiter, and the family is
  never looked at. With the delimiter \<open>|\<close> the same argument is answered 522.
\<close>

theorem EPRT_other_delimiter_gets_501:
  "parseEPRTArg ''!3!fe80::1!1234!'' = Err (Errorf ''invalid EPRT string: !3!fe80::1!1234!'') \<and>
   codes (exSession (exLogin @ [line ''EPRT !3!fe80::1!1234!''])) =
     [''220'', ''331'', ''230'', ''501''] \<and>
   codes (exSession (exLogin @ [line ''EPRT |3|fe80::1|1234|''])) =
     [''220'', ''331'', ''230'', ''522'']"
  by (simp add: eval_defs parseEPRTArg_def string_of_byte_def strings_Trim_single)

text \<open>
  C9. \<open>parseEPRTArg\<close> panics on the empty argument, \<open>arg[0]\<close> being out of range, and
  so does the server when a logged-in client sends the line \<open>EPRT\<close>.
\<close>

theorem EPRT_empty_argument_panics:
  "parseEPRTArg [] = Panic IndexOutOfRange \<and>
   exSession (exLogin @ [line ''EPRT'']) = Crashed IndexOutOfRange"
  by (simp add: eval_defs parseEPRTArg_def)

text \<open>
  C3. \<open>serverPassiveDataConn.write\<close> calls \<open>Accept\<close> exactly once, and when the host of
  the accepted peer is not the host stored in the connection, it returns an error and
  never calls \<open>Write\<close>. The stored host is the host of the peer of the control
  connection, taken when the passive connection is set up.
\<close>

theorem passive_write_checks_peer:
  "count_list (snd (serverPassiveDataConn_write s acc msg)) EvAccept = 1 \<and>
   (acc = Inr cn \<and> net_SplitHostPort (RemoteAddr cn) = Inr (dip, dport) \<and> dip \<noteq> localAddr s \<longrightarrow>
      fst (serverPassiveDataConn_write s acc msg) \<noteq> None \<and>
      snd (serverPassiveDataConn_write s acc msg) = [EvAccept]) \<and>
   (Listen e = Inr a \<and> net_SplitHostPort (RemoteAddr (conn h)) = Inr (chost, cport) \<longrightarrow>
      initPassiveDataConn e h =
        (h\<lparr>dataConn := Some (Passive \<lparr>ln = a, localAddr = chost\<rparr>)\<rparr>, Inr a))"
  by (auto simp: serverPassiveDataConn_write_def initPassiveDataConn_def
           split: sum.splits option.splits prod.splits)

theorem passive_write_checks_peer_witness:
  "count_list (snd (serverPassiveDataConn_write \<lparr>ln = ''[::]:40000'', localAddr = ''192.0.2.7''\<rparr>
                      (Inr exStranger) ''data'')) EvAccept = 1 \<and>
   net_SplitHostPort (RemoteAddr exStranger) = Inr (''198.51.100.9'', ''4444'') \<and>
   ''198.51.100.9'' \<noteq> localAddr \<lparr>ln = ''[::]:40000'', localAddr = ''192.0.2.7''\<rparr> \<and>
   fst (serverPassiveDataConn_write \<lparr>ln = ''[::]:40000'', localAddr = ''192.0.2.7''\<rparr>
          (Inr exStranger) ''data'') \<noteq> None \<and>
   snd (serverPassiveDataConn_write \<lparr>ln = ''[::]:40000'', localAddr = ''192.0.2.7''\<rparr>
          (Inr exStranger) ''data'') = [EvAccept] \<and>
   Listen exEnv = Inr ''[::]:40000'' \<and>
   net_SplitHostPort (RemoteAddr (conn exBare)) = Inr (''192.0.2.7'', ''50000'') \<and>
   initPassiveDataConn exEnv exBare =
     (exBare\<lparr>dataConn := Some (Passive \<lparr>ln = ''[::]:40000'', localAddr = ''192.0.2.7''\<rparr>)\<rparr>,
      Inr ''[::]:40000'')"
proof -
  have sp: "net_SplitHostPort (RemoteAddr exStranger) = Inr (''198.51.100.9'', ''4444'')"
    by (simp add: exStranger_def net_SplitHostPort_def LastIndexByte_def IndexByte_def)
  have ne: "''198.51.100.9'' \<noteq> localAddr \<lparr>ln = ''[::]:40000'', localAddr = ''192.0.2.7''\<rparr>"
    by simp
  have li: "Listen exEnv = Inr ''[::]:40000''"
    by (simp add: exEnv_def)
  have cs: "net_SplitHostPort (RemoteAddr (conn exBare)) = Inr (''192.0.2.7'', ''50000'')"
    by (simp add: exBare_def exConn_def net_SplitHostPort_def LastIndexByte_def IndexByte_def)
  from passive_write_checks_peer
         [of "\<lparr>ln = ''[::]:40000'', localAddr = ''192.0.2.7''\<rparr>" "Inr exStranger" "''data''"
             exStranger "''198.51.100.9''" "''4444''" exEnv "''[::]:40000''" exBare
             "''192.0.2.7''" "''50000''"]
    sp ne li cs
  show ?thesis by simp
qed

lemma strings_Trim_bars:
  assumes "B \<noteq> []" "hd B \<noteq> c" "last B \<noteq> c"
  shows "strings_Trim (c # B @ [c]) [c] = B"
proof -
  from assms(1) obtain y ys where rb: "rev B = y # ys"
    by (cases "rev B") auto
  then have "y = last B"
    by (metis last_rev list.sel(1) hd_rev rev_rev_ident)
  with assms(3) have "y \<noteq> c" by simp
  with rb have r: "dropWhile (\<lambda>x. x = c) (rev B @ [c]) = rev B @ [c]"
    by simp
  from assms(1,2) have l: "dropWhile (\<lambda>x. x = c) B = B"
    by (cases B) auto
  show ?thesis
    by (simp add: strings_Trim_single r l)
qed

lemma parseEPRTArg_form:
  assumes "B \<noteq> []" "hd B \<noteq> CHR ''|''" "last B \<noteq> CHR ''|''"
    and "strings_Split B (CHR ''|'') = [p0, p1, p2]"
  shows "parseEPRTArg (CHR ''|'' # B @ [CHR ''|'']) =
           (if p0 \<noteq> ''1'' \<and> p0 \<noteq> ''2'' then Err errInvalidAddrFamily
            else Ok (net_JoinHostPort p1 p2))"
proof -
  have trim: "strings_Trim (CHR ''|'' # B @ [CHR ''|'']) [CHR ''|''] = B"
    using assms(1-3) by (rule strings_Trim_bars)
  show ?thesis
    by (simp add: parseEPRTArg_def string_of_byte_def trim assms(4))
qed

lemma parseEPRTArg_bars:
  assumes "proto \<noteq> []" "CHR ''|'' \<notin> set proto"
    and "CHR ''|'' \<notin> set hst" and "prt \<noteq> []" "CHR ''|'' \<notin> set prt"
  shows "parseEPRTArg (''|'' @ proto @ ''|'' @ hst @ ''|'' @ prt @ ''|'') =
           (if proto \<noteq> ''1'' \<and> proto \<noteq> ''2'' then Err errInvalidAddrFamily
            else Ok (net_JoinHostPort hst prt))"
proof -
  define B where "B = proto @ ''|'' @ hst @ ''|'' @ prt"
  have ne: "B \<noteq> []" using assms(1) by (simp add: B_def)
  have "hd B = hd proto" using assms(1) by (simp add: B_def)
  moreover have "hd proto \<in> set proto" using assms(1) by simp
  ultimately have hdB: "hd B \<noteq> CHR ''|''" using assms(2) by metis
  have "last B = last prt" using assms(4) by (simp add: B_def)
  moreover have "last prt \<in> set prt" using assms(4) by simp
  ultimately have lastB: "last B \<noteq> CHR ''|''" using assms(5) by metis
  have sp: "strings_Split B (CHR ''|'') = [proto, hst, prt]"
    using assms(2,3,5) by (simp add: B_def strings_Split_append strings_Split_no_sep)
  have arg: "''|'' @ proto @ ''|'' @ hst @ ''|'' @ prt @ ''|'' = CHR ''|'' # B @ [CHR ''|'']"
    by (simp add: B_def)
  show ?thesis
    unfolding arg using ne hdB lastB sp by (rule parseEPRTArg_form)
qed

text \<open>
  C5 (amended). For a host that \<open>net.ParseIP\<close> accepts (such a host holds no \<open>|\<close>) and
  a port that is not empty and holds no \<open>|\<close>, \<open>getEPRTString\<close> builds
  \<open>|proto|host'|port|\<close>, where the protocol family is 1 for an IPv4 address and for the
  IPv6 loopback and 2 for every other IPv6 address, and the host is \<open>127.0.0.1\<close> for the
  IPv6 loopback and the given host otherwise; \<open>parseEPRTArg\<close> of that string returns
  this host and the port, joined.
\<close>

theorem EPRT_round_trip:
  assumes "CHR ''|'' \<notin> set hst" and "prt \<noteq> []" and "CHR ''|'' \<notin> set prt"
  shows "getEPRTString (Some ip) hst prt =
           Inr (''|'' @ (if isTo4 ip \<or> IsLoopback ip then ''1'' else ''2'') @ ''|'' @
                (if \<not> isTo4 ip \<and> IsLoopback ip then ''127.0.0.1'' else hst) @ ''|'' @
                prt @ ''|'') \<and>
         map_sum id parseEPRTArg (getEPRTString (Some ip) hst prt) =
           Inr (Ok (net_JoinHostPort
                      (if \<not> isTo4 ip \<and> IsLoopback ip then ''127.0.0.1'' else hst) prt))"
proof
  show "getEPRTString (Some ip) hst prt =
           Inr (''|'' @ (if isTo4 ip \<or> IsLoopback ip then ''1'' else ''2'') @ ''|'' @
                (if \<not> isTo4 ip \<and> IsLoopback ip then ''127.0.0.1'' else hst) @ ''|'' @
                prt @ ''|'')"
    by (simp add: getEPRTString_def)
next
  have a: "parseEPRTArg (''|'' @ ''1'' @ ''|'' @ hst @ ''|'' @ prt @ ''|'') = Ok (net_JoinHostPort hst prt)"
    using assms by (subst parseEPRTArg_bars) simp_all
  have b: "parseEPRTArg (''|'' @ ''2'' @ ''|'' @ hst @ ''|'' @ prt @ ''|'') = Ok (net_JoinHostPort hst prt)"
    using assms by (subst parseEPRTArg_bars) simp_all
  have c: "parseEPRTArg (''|'' @ ''1'' @ ''|'' @ ''127.0.0.1'' @ ''|'' @ prt @ ''|'') =
             Ok (net_JoinHostPort ''127.0.0.1'' prt)"
    using assms by (subst parseEPRTArg_bars) simp_all
  from a b c show "map_sum id parseEPRTArg (getEPRTString (Some ip) hst prt) =
           Inr (Ok (net_JoinHostPort
                      (if \<not> isTo4 ip \<and> IsLoopback ip then ''127.0.0.1'' else hst) prt))"
    by (simp add: getEPRTString_def)
qed

theorem EPRT_round_trip_witness:
  "CHR ''|'' \<notin> set ''::1'' \<and> ''50001'' \<noteq> [] \<and> CHR ''|'' \<notin> set ''50001'' \<and>
   getEPRTString (Some \<lparr>isTo4 = False, IsLoopback = True\<rparr>) ''::1'' ''50001'' =
     Inr ''|1|127.0.0.1|50001|'' \<and>
   map_sum id parseEPRTArg
     (getEPRTString (Some \<lparr>isTo4 = False, IsLoopback = True\<rparr>) ''::1'' ''50001'') =
     Inr (Ok ''127.0.0.1:50001'')"
proof -
  have h: "CHR ''|'' \<notin> set ''::1''" "''50001'' \<noteq> []" "CHR ''|'' \<notin> set ''50001''"
    by simp_all
  note t = EPRT_round_trip [OF h, of "\<lparr>isTo4 = False, IsLoopback = True\<rparr>"]
  from t [THEN conjunct1]
  have e1: "getEPRTString (Some \<lparr>isTo4 = False, IsLoopback = True\<rparr>) ''::1'' ''50001'' =
              Inr ''|1|127.0.0.1|50001|''"
    by simp
  from t [THEN conjunct2]
  have e2: "map_sum id parseEPRTArg
              (getEPRTString (Some \<lparr>isTo4 = False, IsLoopback = True\<rparr>) ''::1'' ''50001'') =
              Inr (Ok ''127.0.0.1:50001'')"
    by (simp add: net_JoinHostPort_def)
  from h e1 e2 show ?thesis by (intro conjI)
qed

text \<open>
  C5, counterexample. With the empty port the argument \<open>|1|10.0.0.1||\<close> is built, and
  \<open>parseEPRTArg\<close> rejects it.
\<close>

theorem EPRT_round_trip_empty_port_counterexample:
  "map_sum id parseEPRTArg
     (getEPRTString (Some \<lparr>isTo4 = True, IsLoopback = False\<rparr>) ''10.0.0.1'' []) =
     Inr (Err (Errorf ''invalid EPRT string: |1|10.0.0.1||''))"
  by (simp add: getEPRTString_def parseEPRTArg_def string_of_byte_def strings_Trim_single)

subsection \<open>The command table of a logged-in session\<close>

lemma loggedInTable_sameLogin: "sameLogin h h' \<Longrightarrow> loggedInTable h \<Longrightarrow> loggedInTable h'"
  by (simp add: sameLogin_def loggedInTable_def)

lemma loggedInTable_writeReply: "loggedInTable (writeReply h r) = loggedInTable h"
  by (simp add: loggedInTable_def writeReply_def)

lemma loggedInTable_HandlePASS: "loggedInTable h \<Longrightarrow> loggedInTable (HandlePASS h a)"
  by (simp add: HandlePASS_def loggedInTable_def reply_defs initCommandTableLoggedIn_def
        split: option.splits)

lemma callHandler_table:
  "callHandler f h e a = Inr h' \<Longrightarrow> loggedInTable h \<Longrightarrow> loggedInTable h'"
proof (cases f)
  case hEPRT
  assume "callHandler f h e a = Inr h'" "loggedInTable h"
  with hEPRT show ?thesis
    using HandleEPRT_frame [of h a h'] loggedInTable_sameLogin by (auto simp: callHandler_def)
next
  case hLIST
  assume "callHandler f h e a = Inr h'" "loggedInTable h"
  with hLIST show ?thesis
    using HandleLIST_frame [of h e a h'] loggedInTable_sameLogin by (auto simp: callHandler_def)
next
  case hRETR
  assume "callHandler f h e a = Inr h'" "loggedInTable h"
  with hRETR show ?thesis
    using HandleRETR_frame [of h e a h'] loggedInTable_sameLogin by (auto simp: callHandler_def)
qed (auto simp: callHandler_def loggedInTable_HandlePASS writeError530NotLoggedIn_def
          loggedInTable_writeReply
      intro: loggedInTable_sameLogin HandleUSER_frame HandleHELP_frame HandlePWD_frame
        HandleCWD_frame HandleCDUP_frame HandlePORT_frame HandleQUIT_frame
        conjunct1 [OF HandlePASV_frame] conjunct1 [OF HandleEPSV_frame])

lemma handleLine_table:
  "handleLine e h msg = Continue h' \<Longrightarrow> loggedInTable h \<Longrightarrow> loggedInTable h'"
  by (auto simp: handleLine_def handleCommand_def Let_def loggedInTable_writeReply
           split: sum.splits if_splits option.splits
           dest: callHandler_table)

lemma run_table: "run h ins = Continue h' \<Longrightarrow> loggedInTable h \<Longrightarrow> loggedInTable h'"
proof (induction ins arbitrary: h)
  case Nil
  then show ?case by simp
next
  case (Cons x xs)
  obtain e msg where x: "x = (e, msg)" by (cases x)
  from Cons.prems(1) obtain h1 where s: "handleLine e h msg = Continue h1" and r: "run h1 xs = Continue h'"
    by (auto simp: x split: session.splits)
  from s Cons.prems(2) have "loggedInTable h1" by (rule handleLine_table)
  with r show ?case by (rule Cons.IH)
qed

lemma HandleCWD_failure:
  "StatusCode (last (replies (HandleCWD h e a))) \<noteq> ''250'' \<Longrightarrow> dir (HandleCWD h e a) = dir h"
  by (auto simp: HandleCWD_def Let_def reply_defs newReply_def split: sum.splits if_splits)

subsection \<open>Evaluation of \<open>path.Clean\<close>\<close>

lemma cleanLoop_Nil: "cleanLoop rooted out dotdot [] = out"
  by (subst cleanLoop.simps) simp

lemma cleanLoop_Cons:
  "cleanLoop rooted out dotdot (c # r) =
     (if c = CHR ''/'' then cleanLoop rooted out dotdot r
      else if c = CHR ''.'' \<and> (r = [] \<or> hd r = CHR ''/'') then cleanLoop rooted out dotdot r
      else if c = CHR ''.'' \<and> hd r = CHR ''.'' \<and> (tl r = [] \<or> hd (tl r) = CHR ''/'') then
        (if length out > dotdot then
           cleanLoop rooted (take (backtrack out dotdot (length out - 1)) out) dotdot (tl r)
         else if \<not> rooted then
           cleanLoop rooted ((if length out > 0 then out @ ''/'' else out) @ ''..'')
             (length ((if length out > 0 then out @ ''/'' else out) @ ''..'')) (tl r)
         else cleanLoop rooted out dotdot (tl r))
      else
        cleanLoop rooted
          ((if rooted \<and> length out \<noteq> 1 \<or> \<not> rooted \<and> length out \<noteq> 0
            then out @ ''/'' else out) @ takeWhile (\<lambda>x. x \<noteq> CHR ''/'') (c # r))
          dotdot (dropWhile (\<lambda>x. x \<noteq> CHR ''/'') (c # r)))"
  by (subst cleanLoop.simps) (simp only: list.case Let_def)

lemmas path_eval = path_IsAbs_def path_Join_def path_Clean_def cleanLoop_Nil cleanLoop_Cons
  backtrack.simps

lemma exLogin_session:
  "\<exists>h. exSession exLogin = Continue h \<and> dir h = ''/srv/ftp'' \<and> isLoggedIn h"
  by (simp add: eval_defs)

lemma exCWD_ok:
  "dir h = ''/srv/ftp'' \<Longrightarrow>
     StatusCode (last (replies (HandleCWD h exEnv ''../../tmp''))) = ''250''"
  by (simp add: HandleCWD_def path_eval exEnv_def exLstat_def writeReply_def newReply_def Let_def)

lemma exCWD_fail:
  "dir h = ''/srv/ftp'' \<Longrightarrow>
     StatusCode (last (replies (HandleCWD h exEnv ''nowhere''))) \<noteq> ''250''"
  by (simp add: HandleCWD_def path_eval exEnv_def exLstat_def writeReply_def newReply_def Let_def)

lemma exClean: "path_Clean (''/srv/ftp'' @ ''/'' @ ''../../tmp'') = ''/tmp''"
  by (simp add: path_eval Let_def)

text \<open>
  C8 (amended). When \<open>os.Getwd\<close> returns an absolute path, the directory of a session is
  an absolute path at every point of the command loop. It starts as the working
  directory of the server. In a logged-in session the command \<open>CWD\<close> runs \<open>HandleCWD\<close>
  on its argument and \<open>CDUP\<close> runs it on \<open>..\<close>. A \<open>CWD\<close> that answers 250 stores an
  absolute path that \<open>Lstat\<close> has just found to be a directory: \<open>path.Clean\<close> of the old
  directory, a slash and the argument when the argument is relative, and the argument
  itself, exactly as the client sent it, when it is absolute. Any other \<open>CWD\<close> leaves the
  directory as it was.
\<close>

theorem cwd_stays_absolute:
  assumes "Getwd e0 = Inr wd" and "path_IsAbs wd"
    and "newHandler e0 cn c us = Inr h0" and "handle h0 ins = Continue h"
  shows "dir h0 = wd \<and> path_IsAbs (dir h) \<and>
         (isLoggedIn h \<longrightarrow>
            handleCommand e h \<lparr>Code = ''CWD'', Arugment = a\<rparr> = Continue (HandleCWD h e a) \<and>
            handleCommand e h \<lparr>Code = ''CDUP'', Arugment = []\<rparr> =
              Continue (HandleCWD h e ''..'')) \<and>
         (if StatusCode (last (replies (HandleCWD h e a))) = ''250''
          then dir (HandleCWD h e a) =
                 (if path_IsAbs a then a else path_Clean (dir h @ ''/'' @ a)) \<and>
               path_IsAbs (dir (HandleCWD h e a)) \<and>
               (\<exists>info. Lstat e (dir (HandleCWD h e a)) = Inr info \<and> IsDir info)
          else dir (HandleCWD h e a) = dir h)"
proof -
  let ?w = "writeReply h0 (newReply ''220'' ''Welcome to Erik's FTP Server'')"
  from assms(3) have g: "Getwd e0 = Inr (dir h0)" and n: "\<not> isLoggedIn h0"
    by (simp_all add: newHandler_init)
  from g assms(1) have d0: "dir h0 = wd" by simp
  with assms(2) have "path_IsAbs (dir ?w)"
    by (simp add: writeReply_def)
  with assms(4) have abs: "path_IsAbs (dir h)"
    unfolding handle_def by (rule run_abs)
  then have ne: "dir h \<noteq> []" by (simp add: path_IsAbs_def)
  from n have "loggedInTable ?w"
    by (simp add: loggedInTable_def writeReply_def)
  with assms(4) have tab: "loggedInTable h"
    unfolding handle_def by (rule run_table)
  have cmd: "isLoggedIn h \<longrightarrow>
            handleCommand e h \<lparr>Code = ''CWD'', Arugment = a\<rparr> = Continue (HandleCWD h e a) \<and>
            handleCommand e h \<lparr>Code = ''CDUP'', Arugment = []\<rparr> =
              Continue (HandleCWD h e ''..'')"
  proof
    assume "isLoggedIn h"
    with tab have c: "commands h ''CWD'' = Some hCWD" "commands h ''CDUP'' = Some hCDUP"
      by (simp_all add: loggedInTable_def)
    have u: "strings_ToUpper ''CWD'' = ''CWD''" "strings_ToUpper ''CDUP'' = ''CDUP''"
      by (simp_all add: strings_ToUpper_def upperByte_def)
    from c u show "handleCommand e h \<lparr>Code = ''CWD'', Arugment = a\<rparr> = Continue (HandleCWD h e a) \<and>
            handleCommand e h \<lparr>Code = ''CDUP'', Arugment = []\<rparr> =
              Continue (HandleCWD h e ''..'')"
      by (simp add: handleCommand_def Let_def callHandler_def HandleCDUP_def)
  qed
  have cwd: "if StatusCode (last (replies (HandleCWD h e a))) = ''250''
          then dir (HandleCWD h e a) =
                 (if path_IsAbs a then a else path_Clean (dir h @ ''/'' @ a)) \<and>
               path_IsAbs (dir (HandleCWD h e a)) \<and>
               (\<exists>info. Lstat e (dir (HandleCWD h e a)) = Inr info \<and> IsDir info)
          else dir (HandleCWD h e a) = dir h"
  proof (cases "StatusCode (last (replies (HandleCWD h e a))) = ''250''")
    case True
    from HandleCWD_success [OF True]
    have d: "dir (HandleCWD h e a) = (if path_IsAbs a then a else path_Join [dir h, a])"
      and l: "\<exists>info. Lstat e (dir (HandleCWD h e a)) = Inr info \<and> IsDir info"
      by blast+
    from ne have j: "path_Join [dir h, a] = path_Clean (dir h @ ''/'' @ a)"
      by (rule path_Join_relative)
    from d j have d': "dir (HandleCWD h e a) =
        (if path_IsAbs a then a else path_Clean (dir h @ ''/'' @ a))"
      by (simp only:)
    from abs have "path_IsAbs (dir (HandleCWD h e a))" by (rule HandleCWD_abs)
    with d' l have all: "dir (HandleCWD h e a) =
                 (if path_IsAbs a then a else path_Clean (dir h @ ''/'' @ a)) \<and>
               path_IsAbs (dir (HandleCWD h e a)) \<and>
               (\<exists>info. Lstat e (dir (HandleCWD h e a)) = Inr info \<and> IsDir info)"
      by (intro conjI)
    show ?thesis unfolding if_P [OF True] by (rule all)
  next
    case False
    then have same: "dir (HandleCWD h e a) = dir h" by (rule HandleCWD_failure)
    show ?thesis unfolding if_not_P [OF False] by (rule same)
  qed
  from d0 abs cmd cwd show ?thesis by (intro conjI)
qed

theorem cwd_stays_absolute_witness:
  "\<exists>h0 h. Getwd exEnv = Inr ''/srv/ftp'' \<and> path_IsAbs ''/srv/ftp'' \<and>
     newHandler exEnv exConn exConfig exUsers = Inr h0 \<and> handle h0 exLogin = Continue h \<and>
     isLoggedIn h \<and> dir h0 = ''/srv/ftp'' \<and> path_IsAbs (dir h) \<and>
     handleCommand exEnv h \<lparr>Code = ''CWD'', Arugment = ''../../tmp''\<rparr> =
       Continue (HandleCWD h exEnv ''../../tmp'') \<and>
     StatusCode (last (replies (HandleCWD h exEnv ''../../tmp''))) = ''250'' \<and>
     dir (HandleCWD h exEnv ''../../tmp'') = ''/tmp'' \<and>
     path_IsAbs (dir (HandleCWD h exEnv ''../../tmp'')) \<and>
     (\<exists>info. Lstat exEnv (dir (HandleCWD h exEnv ''../../tmp'')) = Inr info \<and> IsDir info) \<and>
     StatusCode (last (replies (HandleCWD h exEnv ''nowhere''))) \<noteq> ''250'' \<and>
     dir (HandleCWD h exEnv ''nowhere'') = ''/srv/ftp''"
proof -
  obtain h0 where n: "newHandler exEnv exConn exConfig exUsers = Inr h0"
    using exNewHandler by blast
  obtain h where s: "exSession exLogin = Continue h" and d: "dir h = ''/srv/ftp''"
    and li: "isLoggedIn h"
    using exLogin_session by blast
  from s have r: "handle h0 exLogin = Continue h"
    by (simp add: exSession_handle [OF n])
  have g: "Getwd exEnv = Inr ''/srv/ftp''" by (simp add: exEnv_def)
  have a: "path_IsAbs ''/srv/ftp''" by (simp add: path_IsAbs_def)
  from d have ok: "StatusCode (last (replies (HandleCWD h exEnv ''../../tmp''))) = ''250''"
    by (rule exCWD_ok)
  from d have nok: "StatusCode (last (replies (HandleCWD h exEnv ''nowhere''))) \<noteq> ''250''"
    by (rule exCWD_fail)
  have rel: "\<not> path_IsAbs ''../../tmp''" by (simp add: path_IsAbs_def)
  note t = cwd_stays_absolute [OF g a n r, of exEnv "''../../tmp''"]
  note t' = cwd_stays_absolute [OF g a n r, of exEnv "''nowhere''"]
  note t1 = t [THEN conjunct1]
  note t2 = t [THEN conjunct2, THEN conjunct1]
  note t3 = t [THEN conjunct2, THEN conjunct2, THEN conjunct1, THEN mp, OF li, THEN conjunct1]
  note u = t [THEN conjunct2, THEN conjunct2, THEN conjunct2, unfolded if_P [OF ok]]
  note u1 = u [THEN conjunct1]
  note u2 = u [THEN conjunct2, THEN conjunct1]
  note u3 = u [THEN conjunct2, THEN conjunct2]
  note u1' = u1 [unfolded if_not_P [OF rel] d exClean]
  note v = t' [THEN conjunct2, THEN conjunct2, THEN conjunct2, unfolded if_not_P [OF nok] d]
  show ?thesis
    apply (rule exI [of _ h0], rule exI [of _ h])
    using g a n r li t1 t2 t3 ok u1' u2 u3 nok v by (intro conjI)
qed

text \<open>
  C8, counterexample. After \<open>CWD /tmp/../tmp/\<close> in a logged-in session the directory of
  the session is \<open>/tmp/../tmp/\<close>, which is not lexically clean: \<open>path.Clean\<close> turns it
  into \<open>/tmp\<close>.
\<close>

theorem cwd_not_cleaned_counterexample:
  "dirOf (exSession (exLogin @ [line ''CWD /tmp/../tmp/''])) = Some ''/tmp/../tmp/'' \<and>
   codes (exSession (exLogin @ [line ''CWD /tmp/../tmp/''])) = [''220'', ''331'', ''230'', ''250''] \<and>
   path_Clean ''/tmp/../tmp/'' = ''/tmp'' \<and>
   \<not> canonical ''/tmp/../tmp/''"
  by (simp add: eval_defs canonical_def path_eval)

end
